theory Spec2Isabelle
  imports
    Complex_Main
    "HOL-Library.Multiset"
    "HOL-Library.Sublist"
    "HOL-Library.Char_ord"
    "HOL-Library.List_Lexorder"
begin

section \<open>The session shopping cart of \<^verbatim>\<open>src/cart.js\<close>\<close>

text \<open>
  The handlers of \<^verbatim>\<open>cart.js\<close> are modelled as functions from the environment of one
  invocation (the outcome of the location and menu lookups, the cart store, the parsed
  request body) to the response and the store after the call.

  Conventions of the embedding:
  \<^item> JavaScript numbers that hold money (dollars) are exact rationals (\<^typ>\<open>rat\<close>); the
    properties below are about which expression a handler computes, not about rounding.
    Cents and quantities are integers.
  \<^item> Strings are \<^typ>\<open>string\<close>; case conversion and whitespace are those of ASCII.
  \<^item> An absent (\<^verbatim>\<open>undefined\<close>) request field is \<^term>\<open>None\<close>. An absent array field of a menu
    entry (\<^verbatim>\<open>modifiers\<close>, \<^verbatim>\<open>options\<close>) is the empty list: the source treats both alike.
  \<^item> The request body is taken as parsed; \<^verbatim>\<open>quantity\<close> is any JSON number,
    \<^verbatim>\<open>quantityToRemove\<close> an integer one.
  \<^item> The response headers are the same constant in every response and are left out, and
    so is logging.
\<close>

subsection \<open>JavaScript string helpers\<close>

definition toLowerCase_char :: "char \<Rightarrow> char" where
  "toLowerCase_char c =
     (case map_of (zip ''ABCDEFGHIJKLMNOPQRSTUVWXYZ'' ''abcdefghijklmnopqrstuvwxyz'') c of
        Some d \<Rightarrow> d | None \<Rightarrow> c)"

definition toUpperCase_char :: "char \<Rightarrow> char" where
  "toUpperCase_char c =
     (case map_of (zip ''abcdefghijklmnopqrstuvwxyz'' ''ABCDEFGHIJKLMNOPQRSTUVWXYZ'') c of
        Some d \<Rightarrow> d | None \<Rightarrow> c)"

definition toLowerCase :: "string \<Rightarrow> string" where
  "toLowerCase s = map toLowerCase_char s"

definition toUpperCase :: "string \<Rightarrow> string" where
  "toUpperCase s = map toUpperCase_char s"

definition is_space :: "char \<Rightarrow> bool" where
  "is_space c = (c \<in> set [CHR 0x09, CHR 0x0A, CHR 0x0B, CHR 0x0C, CHR 0x0D, CHR 0x20])"

definition trim :: "string \<Rightarrow> string" where
  "trim s = rev (dropWhile is_space (rev (dropWhile is_space s)))"

text \<open>\<^verbatim>\<open>s.includes(t)\<close>: \<open>t\<close> occurs in \<open>s\<close> as a contiguous substring.\<close>

fun str_includes :: "string \<Rightarrow> string \<Rightarrow> bool" where
  "str_includes [] t = (t = [])"
| "str_includes (c # s) t = (prefix t (c # s) \<or> str_includes s t)"

definition endsWith :: "string \<Rightarrow> string \<Rightarrow> bool" where
  "endsWith s t = suffix t s"

definition is_digit :: "char \<Rightarrow> bool" where
  "is_digit c = (c \<in> set ''0123456789'')"

definition is_word_char :: "char \<Rightarrow> bool" where
  "is_word_char c =
     (c \<in> set ''abcdefghijklmnopqrstuvwxyzABCDEFGHIJKLMNOPQRSTUVWXYZ0123456789_'')"

text \<open>Decimal rendering of an integer, as a template literal renders it.\<close>

fun string_of_nat :: "nat \<Rightarrow> string" where
  "string_of_nat n =
     (if n < 10 then [''0123456789'' ! n]
      else string_of_nat (n div 10) @ [''0123456789'' ! (n mod 10)])"

declare string_of_nat.simps [simp del]

definition string_of_int :: "int \<Rightarrow> string" where
  "string_of_int i =
     (if i < 0 then ''-'' @ string_of_nat (nat (- i)) else string_of_nat (nat i))"

text \<open>\<^verbatim>\<open>xs.join(sep)\<close>.\<close>

fun join :: "string \<Rightarrow> string list \<Rightarrow> string" where
  "join sep [] = []"
| "join sep [x] = x"
| "join sep (x # y # ys) = x @ sep @ join sep (y # ys)"

definition quoted :: "string \<Rightarrow> string" where
  "quoted s = [CHR 0x22] @ s @ [CHR 0x22]"

text \<open>\<^verbatim>\<open>xs.findIndex(p)\<close>, with \<^term>\<open>None\<close> for \<open>-1\<close>.\<close>

fun findIndex :: "('a \<Rightarrow> bool) \<Rightarrow> 'a list \<Rightarrow> nat option" where
  "findIndex P [] = None"
| "findIndex P (x # xs) = (if P x then Some 0 else map_option Suc (findIndex P xs))"

text \<open>\<^verbatim>\<open>xs.splice(i, 1)\<close>: the list without its element at index \<open>i\<close>.\<close>

definition splice1 :: "nat \<Rightarrow> 'a list \<Rightarrow> 'a list" where
  "splice1 i xs = take i xs @ drop (Suc i) xs"

text \<open>
  The reverse scan \<^verbatim>\<open>for (let i = xs.length - 1; i >= 0; i--) if (p(xs[i])) { idx = i; break; }\<close>:
  \<open>scan_down P xs n\<close> inspects the indices \<open>n - 1, \<dots>, 0\<close> in that order.
\<close>

fun scan_down :: "('a \<Rightarrow> bool) \<Rightarrow> 'a list \<Rightarrow> nat \<Rightarrow> nat option" where
  "scan_down P xs 0 = None"
| "scan_down P xs (Suc i) = (if P (xs ! i) then Some i else scan_down P xs i)"

subsection \<open>Data model\<close>

text \<open>A menu entry as the menu table stores it; prices are integer cents.\<close>

record menu_option =
  opt_id :: string
  opt_name :: string
  opt_price :: int
  opt_currency :: string

record menu_category =
  cat_category :: string
  cat_options :: "menu_option list"

record menu_item =
  mi_variation_id :: string
  mi_price :: int
  mi_currency :: string
  mi_description :: string
  mi_modifiers :: "menu_category list"

text \<open>A modifier applied to a cart line; \<open>price\<close> is in dollars.\<close>

record modifier =
  category :: string
  optionId :: string
  optionName :: string
  price :: rat
  currency :: string

text \<open>A cart line, with the fields \<^verbatim>\<open>addToCart\<close> writes.\<close>

record cart_item =
  variation_id :: string
  item_name :: string
  item_price :: int
  item_currency :: string
  description :: string
  price_money :: "int \<times> string"
  quantity :: int
  specialInstructions :: string
  unitPrice :: rat
  lineTotal :: rat
  modifiers :: "modifier list"
  itemId :: string
  name :: string

type_synonym cart = "cart_item list"

text \<open>
  The session-carts table. \<open>get_fails\<close> says whether the table's \<^verbatim>\<open>get\<close> rejects
  during the invocation, \<open>put_error\<close> whether its \<^verbatim>\<open>put\<close> rejects, and with which
  message. The \<^verbatim>\<open>updated_at\<close> and \<^verbatim>\<open>ttl\<close> attributes written beside the cart are
  clock values and are not modelled.
\<close>

record store =
  cart_table :: "string \<rightharpoonup> cart"
  get_fails :: bool
  put_error :: "string option"

record location =
  locationId :: string
  restaurantName :: string

type_synonym menu = "(string \<times> menu_item) list"

text \<open>
  The outcome of \<^verbatim>\<open>getLocationFromPhoneNumber\<close> and \<^verbatim>\<open>getLocationMenu\<close> for the
  invocation: \<^term>\<open>Inl\<close> carries the message of the error thrown.
\<close>

record env =
  location_result :: "string + location"
  menu_result :: "string + menu"

text \<open>The parsed request body: \<^verbatim>\<open>body.call.call_id\<close> and the fields of \<^verbatim>\<open>body.args\<close>.\<close>

record request =
  call_id :: "string option"
  argItemName :: "string option"
  argQuantity :: "rat option"
  argSpecialInstructions :: "string option"
  firstItemSpiceLevel :: "string option"
  secondItemSpiceLevel :: "string option"
  quantityToRemove :: "int option"
  firstSandwichMods :: "string list"
  secondSandwichMods :: "string list"

datatype json =
  JString string
| JNumber rat
| JArray "json list"
| JObject "(string \<times> json) list"

record response =
  statusCode :: nat
  body :: "(string \<times> json) list"

definition createSuccessResponse :: "(string \<times> json) list \<Rightarrow> response" where
  "createSuccessResponse data = \<lparr>statusCode = 200, body = data\<rparr>"

definition createErrorResponse :: "nat \<Rightarrow> string \<Rightarrow> (string \<times> json) list \<Rightarrow> response" where
  "createErrorResponse code msg additionalData =
     \<lparr>statusCode = code, body = (''error'', JString msg) # additionalData\<rparr>"

text \<open>JavaScript truthiness of an optional string: present and not empty.\<close>

definition truthy :: "string option \<Rightarrow> bool" where
  "truthy x = (case x of None \<Rightarrow> False | Some s \<Rightarrow> s \<noteq> [])"

subsection \<open>Cart store\<close>

definition getSessionCart :: "store \<Rightarrow> string \<Rightarrow> cart" where
  "getSessionCart s callId =
     (if callId = [] then []
      else if get_fails s then []
      else (case cart_table s callId of None \<Rightarrow> [] | Some c \<Rightarrow> c))"

definition saveSessionCart :: "store \<Rightarrow> string \<Rightarrow> cart \<Rightarrow> string + store" where
  "saveSessionCart s callId cartItems =
     (if callId = [] then Inl ''Call ID required for session cart''
      else (case put_error s of
              Some msg \<Rightarrow> Inl msg
            | None \<Rightarrow> Inr (s\<lparr>cart_table := (cart_table s)(callId \<mapsto> cartItems)\<rparr>)))"

definition internal_error :: "string \<Rightarrow> response" where
  "internal_error msg =
     createErrorResponse 500 ''Internal server error'' [(''details'', JString msg)]"

text \<open>
  Every handler that changes the cart computes the new cart in memory, then ends with
  \<^verbatim>\<open>await saveSessionCart(callId, sessionCart); return createSuccessResponse(...)\<close>
  inside its \<^verbatim>\<open>try\<close>, whose \<^verbatim>\<open>catch\<close> answers 500. \<open>persist\<close> is that ending, applied to
  the outcome of the in-memory part: either an error response returned before the
  save, or the new cart and the success response.
\<close>

definition persist :: "store \<Rightarrow> string \<Rightarrow> response + cart \<times> response \<Rightarrow> response \<times> store" where
  "persist s callId outcome =
     (case outcome of
        Inl err \<Rightarrow> (err, s)
      | Inr (newCart, ok) \<Rightarrow>
          (case saveSessionCart s callId newCart of
             Inl msg \<Rightarrow> (internal_error msg, s)
           | Inr s' \<Rightarrow> (ok, s')))"

subsection \<open>Modifier resolver\<close>

definition applied :: "menu_category \<Rightarrow> menu_option \<Rightarrow> modifier" where
  "applied cat opt =
     \<lparr>category = cat_category cat, optionId = opt_id opt, optionName = opt_name opt,
      price = of_int (opt_price opt) / 100, currency = opt_currency opt\<rparr>"

definition findSpiceLevelModifier :: "menu_item \<Rightarrow> string option \<Rightarrow> bool \<Rightarrow> bool \<Rightarrow> modifier option" where
  "findSpiceLevelModifier menuItem spiceLevel isFirstItem is2PcItem =
     (case spiceLevel of
        None \<Rightarrow> None
      | Some level \<Rightarrow>
          if level = [] then None
          else
            (case (if is2PcItem
                   then find (\<lambda>cat. cat_category cat =
                                (if isFirstItem then ''Choose Your First Sandwich Mods''
                                 else ''Choose Your Second Sandwich Mods''))
                          (mi_modifiers menuItem)
                   else find (\<lambda>cat. str_includes (toLowerCase (cat_category cat)) ''spice level'')
                          (mi_modifiers menuItem)) of
               None \<Rightarrow> None
             | Some targetCategory \<Rightarrow>
                 (case find (\<lambda>opt. toLowerCase (trim (opt_name opt)) = toLowerCase level)
                         (cat_options targetCategory) of
                    None \<Rightarrow> None
                  | Some spiceOption \<Rightarrow> Some (applied targetCategory spiceOption))))"

definition findModifierInCategory :: "menu_item \<Rightarrow> string \<Rightarrow> string \<Rightarrow> modifier option" where
  "findModifierInCategory menuItem modifierName targetCategoryName =
     (if modifierName = [] then None
      else
        (case find (\<lambda>cat. cat_category cat = targetCategoryName) (mi_modifiers menuItem) of
           None \<Rightarrow> None
         | Some targetCategory \<Rightarrow>
             (case find (\<lambda>opt. trim (opt_name opt) = trim modifierName)
                     (cat_options targetCategory) of
                None \<Rightarrow> None
              | Some modifierOption \<Rightarrow> Some (applied targetCategory modifierOption))))"

text \<open>The sum \<^verbatim>\<open>mods.reduce((sum, mod) => sum + (mod.price || 0), 0)\<close>.\<close>

definition modifierTotal :: "modifier list \<Rightarrow> rat" where
  "modifierTotal mods = fold (\<lambda>m acc. acc + price m) mods 0"

subsection \<open>addToCart\<close>

text \<open>\<^verbatim>\<open>Number.isInteger\<close> on a JSON number.\<close>

definition isInteger :: "rat \<Rightarrow> bool" where
  "isInteger q = (of_int \<lfloor>q\<rfloor> = q)"

text \<open>
  Lines 392 to 456: the candidate line built from the menu entry, with the spice levels
  resolved and the line total recomputed. \<open>totalModifierPrice\<close> is the running sum of
  the source.
\<close>

definition buildCartItem ::
  "menu_item \<Rightarrow> string \<Rightarrow> int \<Rightarrow> string \<Rightarrow> string option \<Rightarrow> string option \<Rightarrow> cart_item" where
  "buildCartItem menuItem itemName qty instructions firstSpice secondSpice =
     (let is2PcItem = str_includes itemName ''(2pc)'';
          cartItem = \<lparr>variation_id = mi_variation_id menuItem,
                      item_name = itemName,
                      item_price = mi_price menuItem,
                      item_currency = mi_currency menuItem,
                      description = mi_description menuItem,
                      price_money = (mi_price menuItem, mi_currency menuItem),
                      quantity = qty,
                      specialInstructions = instructions,
                      unitPrice = of_int (mi_price menuItem) / 100,
                      lineTotal = (of_int (mi_price menuItem) / 100) * of_int qty,
                      modifiers = [],
                      itemId = mi_variation_id menuItem,
                      name = itemName\<rparr>;
          (mods1, total1) =
            (if truthy firstSpice
             then (case findSpiceLevelModifier menuItem firstSpice True is2PcItem of
                     Some m \<Rightarrow> ([m], 0 + price m)
                   | None \<Rightarrow> ([], 0))
             else ([], 0));
          (mods2, total2) =
            (if truthy secondSpice
             then (if is2PcItem
                   then (case findSpiceLevelModifier menuItem secondSpice False is2PcItem of
                           Some m \<Rightarrow> (mods1 @ [m], total1 + price m)
                         | None \<Rightarrow> (mods1, total1))
                   else (mods1, total1))
             else (mods1, total1))
      in cartItem\<lparr>modifiers := mods2,
                   lineTotal := (unitPrice cartItem + total2) * of_int qty\<rparr>)"

text \<open>
  The predicate of the \<^verbatim>\<open>findIndex\<close> at lines 459 to 474. The two arrays of option
  ids are sorted and compared through \<^verbatim>\<open>JSON.stringify\<close>, which is injective on arrays
  of strings, so the comparison is equality of the sorted lists; the default sort
  orders strings lexicographically by code unit.
\<close>

definition sameConfiguration :: "cart_item \<Rightarrow> cart_item \<Rightarrow> bool" where
  "sameConfiguration cartItem item =
     (if itemId item \<noteq> itemId cartItem
         \<or> specialInstructions item \<noteq> specialInstructions cartItem then False
      else if length (modifiers item) \<noteq> length (modifiers cartItem) then False
      else sort (map optionId (modifiers item)) = sort (map optionId (modifiers cartItem)))"

text \<open>Lines 476 to 487: merge into the entry found, or append.\<close>

definition mergeOrAppend :: "cart \<Rightarrow> cart_item \<Rightarrow> int \<Rightarrow> cart" where
  "mergeOrAppend sessionCart cartItem qty =
     (case findIndex (sameConfiguration cartItem) sessionCart of
        Some existingIndex \<Rightarrow>
          (let existing = sessionCart ! existingIndex;
               q = quantity existing + qty
           in sessionCart[existingIndex :=
                existing\<lparr>quantity := q,
                          lineTotal := (unitPrice existing + modifierTotal (modifiers existing))
                                       * of_int q\<rparr>])
      | None \<Rightarrow> sessionCart @ [cartItem])"

text \<open>
  \<^verbatim>\<open>extractPhoneNumber\<close> falls back to a fixed number, so the handlers' check of a
  missing phone number never fires; it is left out. The menu is the list of the
  entries of the menu row: its two string attributes \<^verbatim>\<open>restaurantName\<close> and
  \<^verbatim>\<open>locationID\<close> are not entries.
\<close>

definition availableItems :: "menu \<Rightarrow> json" where
  "availableItems locationMenu =
     JArray (map JString
       (filter (\<lambda>key. key \<notin> set [''restaurantName'', ''locationID'']) (map fst locationMenu)))"

text \<open>Lines 338 and 339: \<^verbatim>\<open>body.args?.quantity || 1\<close> and \<^verbatim>\<open>body.args?.specialInstructions || ''\<close>.\<close>

definition requestedQuantity :: "request \<Rightarrow> rat" where
  "requestedQuantity req =
     (case argQuantity req of None \<Rightarrow> 1 | Some q \<Rightarrow> if q = 0 then 1 else q)"

definition requestedInstructions :: "request \<Rightarrow> string" where
  "requestedInstructions req =
     (case argSpecialInstructions req of None \<Rightarrow> [] | Some i \<Rightarrow> i)"

text \<open>
  Lines 392 to 487 of \<^verbatim>\<open>addToCart\<close>, between reading the cart and saving it, with the
  success response of lines 494 to 496. This part has no error exit.
\<close>

definition addToCart_inMemory ::
  "location \<Rightarrow> menu_item \<Rightarrow> string \<Rightarrow> int \<Rightarrow> request \<Rightarrow> cart \<Rightarrow> response + cart \<times> response" where
  "addToCart_inMemory locationData menuItem itemName qty req sessionCart =
     (let cartItem = buildCartItem menuItem itemName qty (requestedInstructions req)
                       (firstItemSpiceLevel req) (secondItemSpiceLevel req);
          newCart = mergeOrAppend sessionCart cartItem qty
      in Inr (newCart,
              createSuccessResponse
                [(''message'', JString (''Added '' @ string_of_int qty @ '' '' @ itemName
                    @ '' to cart for '' @ restaurantName locationData @ '' ''
                    @ locationId locationData))]))"

definition addToCart :: "env \<Rightarrow> store \<Rightarrow> request \<Rightarrow> response \<times> store" where
  "addToCart e s req =
     (if \<not> truthy (call_id req)
      then (createErrorResponse 400 ''Missing call ID in request'' [], s)
      else
        let callId = the (call_id req);
            qty = requestedQuantity req
        in
        if \<not> truthy (argItemName req)
        then (createErrorResponse 400 ''Missing required field: itemName'' [], s)
        else if qty \<le> 0 \<or> \<not> isInteger qty
        then (createErrorResponse 400 ''Quantity must be a positive integer'' [], s)
        else
          let itemName = the (argItemName req) in
          (case location_result e of
             Inl msg \<Rightarrow> (createErrorResponse 404 (''Location lookup failed: '' @ msg) [], s)
           | Inr locationData \<Rightarrow>
          (case menu_result e of
             Inl msg \<Rightarrow> (createErrorResponse 404 (''Menu lookup failed: '' @ msg) [], s)
           | Inr locationMenu \<Rightarrow>
          (case map_of locationMenu itemName of
             None \<Rightarrow>
               (createErrorResponse 404
                  (''Item '' @ quoted itemName @ '' not found in ''
                     @ restaurantName locationData @ '' '' @ locationId locationData @ '' menu'')
                  [(''availableItems'', availableItems locationMenu)], s)
           | Some menuItem \<Rightarrow>
               let sessionCart = getSessionCart s callId
               in persist s callId
                    (addToCart_inMemory locationData menuItem itemName \<lfloor>qty\<rfloor> req
                       sessionCart)))))"

subsection \<open>removeFromCart\<close>

definition nameMatches :: "string \<Rightarrow> cart_item \<Rightarrow> bool" where
  "nameMatches itemName item =
     (str_includes (toLowerCase (name item)) (toLowerCase itemName)
      \<or> str_includes (toLowerCase itemName) (toLowerCase (name item)))"

text \<open>
  Lines 536 to 561 of \<^verbatim>\<open>removeFromCart\<close>, between reading the cart and saving it, with
  the success response of lines 568 to 570.
\<close>

definition removeFromCart_inMemory ::
  "string \<Rightarrow> int option \<Rightarrow> cart \<Rightarrow> response + cart \<times> response" where
  "removeFromCart_inMemory itemName qtyToRemove sessionCart =
     (if sessionCart = []
      then Inl (createErrorResponse 400 ''Cart is empty'' [])
      else
        (case findIndex (nameMatches itemName) sessionCart of
           None \<Rightarrow>
             Inl (createErrorResponse 404 (''Item '' @ quoted itemName @ '' not found in cart'')
                    [(''currentItems'', JArray (map (\<lambda>item. JString (name item)) sessionCart))])
         | Some cartIndex \<Rightarrow>
             let cartItem = sessionCart ! cartIndex;
                 removeQty = (case qtyToRemove of
                                None \<Rightarrow> quantity cartItem
                              | Some q \<Rightarrow> if q = 0 then quantity cartItem else q);
                 newCart =
                   (if removeQty \<ge> quantity cartItem
                    then splice1 cartIndex sessionCart
                    else sessionCart[cartIndex :=
                           cartItem\<lparr>quantity := quantity cartItem - removeQty,
                                     lineTotal := unitPrice cartItem
                                                  * of_int (quantity cartItem - removeQty)\<rparr>])
             in Inr (newCart,
                     createSuccessResponse
                       [(''message'', JString (''Removed '' @ string_of_int removeQty @ '' ''
                           @ name cartItem @ '' from cart''))])))"

definition removeFromCart :: "store \<Rightarrow> request \<Rightarrow> response \<times> store" where
  "removeFromCart s req =
     (if \<not> truthy (call_id req)
      then (createErrorResponse 400 ''Missing call ID in request'' [], s)
      else if \<not> truthy (argItemName req)
      then (createErrorResponse 400 ''Missing required field: itemName'' [], s)
      else
        let callId = the (call_id req);
            itemName = the (argItemName req);
            sessionCart = getSessionCart s callId
        in persist s callId (removeFromCart_inMemory itemName (quantityToRemove req) sessionCart))"

subsection \<open>Speech formatter and getCartSummary\<close>

definition convertModifierToSpeech :: "string \<Rightarrow> string" where
  "convertModifierToSpeech modifierName =
     (if modifierName = ''Original'' then ''original''
      else if modifierName = ''Mild'' then ''mild''
      else if modifierName = ''Medium'' then ''medium''
      else if modifierName = ''Hot'' then ''hot''
      else if modifierName = ''Extra Hot'' then ''extra hot''
      else if modifierName = ''FCK YOU CRA'' then ''f you cray''
      else if str_includes modifierName ''Add cheese'' then ''with cheese''
      else if str_includes modifierName ''No cheese'' then ''no cheese''
      else if str_includes modifierName ''No Pickles'' then ''no pickles''
      else if str_includes modifierName ''No Slaw'' then ''no slaw''
      else if str_includes modifierName ''No Big Bird Sauce'' then ''no sauce''
      else if modifierName = ''Add tender'' then ''with extra tender''
      else if modifierName = ''Pickles on the side'' then ''pickles on the side''
      else if modifierName = ''Slaw on the side'' then ''slaw on the side''
      else if modifierName = ''Chicken & Bun Only'' then ''chicken and bun only''
      else if modifierName = ''Substitute fries with mac & cheese''
        then ''substitute fries with mac and cheese''
      else if modifierName = ''Substitute fries with slaw'' then ''substitute fries with slaw''
      else if str_includes modifierName ''Substitute Slaw with Lettuce''
        then ''substitute slaw with lettuce''
      else trim (rev (dropWhile is_digit (rev (toLowerCase modifierName)))))"

definition createModifierDescription :: "modifier list \<Rightarrow> string" where
  "createModifierDescription mods =
     (if mods = [] then []
      else
        let piece1Modifiers =
              map (\<lambda>m. convertModifierToSpeech (optionName m))
                (filter (\<lambda>m. endsWith (optionName m) '' 1'') mods);
            piece2Modifiers =
              map (\<lambda>m. convertModifierToSpeech (optionName m))
                (filter (\<lambda>m. \<not> endsWith (optionName m) '' 1'' \<and> endsWith (optionName m) '' 2'')
                   mods);
            wholeItemModifiers =
              map (\<lambda>m. convertModifierToSpeech (optionName m))
                (filter (\<lambda>m. \<not> endsWith (optionName m) '' 1'' \<and> \<not> endsWith (optionName m) '' 2'')
                   mods);
            descriptions =
              (if piece1Modifiers \<noteq> []
               then [''first sandwich '' @ join '' '' piece1Modifiers] else [])
              @ (if piece2Modifiers \<noteq> []
                 then [''second sandwich '' @ join '' '' piece2Modifiers] else [])
              @ wholeItemModifiers
        in if descriptions \<noteq> [] then '' - '' @ join '', '' descriptions else [])"

text \<open>
  \<^verbatim>\<open>replace(/(\d+)pc\b/g, '$1 piece')\<close>: every \<^verbatim>\<open>pc\<close> that follows a digit and is
  followed by a word boundary becomes \<^verbatim>\<open> piece\<close>. The flag says whether the
  character before is a digit.
\<close>

fun replace_pc :: "bool \<Rightarrow> string \<Rightarrow> string" where
  "replace_pc d [] = []"
| "replace_pc d [c] = [c]"
| "replace_pc d (c # c' # cs) =
     (if d \<and> c = CHR ''p'' \<and> c' = CHR ''c''
         \<and> (case cs of [] \<Rightarrow> True | x # _ \<Rightarrow> \<not> is_word_char x)
      then '' piece'' @ replace_pc False cs
      else c # replace_pc (is_digit c) (c' # cs))"

text \<open>\<^verbatim>\<open>replace(/FCK YOU CRA/g, 'F.C.K.')\<close>.\<close>

fun replace_fck :: "string \<Rightarrow> string" where
  "replace_fck [] = []"
| "replace_fck (c # cs) =
     (if prefix ''FCK YOU CRA'' (c # cs) then ''F.C.K.'' @ replace_fck (drop 10 cs)
      else c # replace_fck cs)"

text \<open>
  \<^verbatim>\<open>x.toFixed(2)\<close> on an exact rational below \<open>10\<^sup>2\<^sup>1\<close>: the nearest multiple of one
  cent, the larger one on a tie.
\<close>

definition toFixed2 :: "rat \<Rightarrow> string" where
  "toFixed2 x =
     (let n = nat \<lfloor>\<bar>x\<bar> * 100 + 1 / 2\<rfloor>
      in (if x < 0 then ''-'' else [])
         @ string_of_nat (n div 100) @ ''.''
         @ [''0123456789'' ! (n mod 100 div 10), ''0123456789'' ! (n mod 10)])"

definition speechItem :: "cart_item \<Rightarrow> string" where
  "speechItem item =
     (let itemName0 = (if item_name item \<noteq> [] then item_name item
                       else if name item \<noteq> [] then name item else ''Unknown Item'');
          itemName1 = (if toUpperCase itemName0 = ''SODA'' \<and> specialInstructions item \<noteq> []
                       then specialInstructions item else itemName0);
          itemName2 = replace_fck (replace_pc False itemName1);
          qty = (if quantity item = 0 then 1 else quantity item)
      in string_of_int qty @ '' '' @ itemName2 @ createModifierDescription (modifiers item))"

definition createSpeechFriendlySummary :: "cart \<Rightarrow> rat \<Rightarrow> string" where
  "createSpeechFriendlySummary sessionCart subtotal =
     (if sessionCart = [] then ''Your cart is empty.''
      else join '', '' (map speechItem sessionCart)
           @ ''. Your total is $'' @ toFixed2 subtotal @ '' plus tax'')"

text \<open>
  The handler also computes \<open>itemCount\<close>, the sum of the quantities, and does not use
  it; the response carries the message only.
\<close>

definition getCartSummary :: "store \<Rightarrow> request \<Rightarrow> response \<times> store" where
  "getCartSummary s req =
     (if \<not> truthy (call_id req)
      then (createErrorResponse 400 ''Missing call ID in request'' [], s)
      else
        let sessionCart = getSessionCart s (the (call_id req)) in
        if sessionCart = []
        then (createSuccessResponse [(''message'', JString ''Your cart is empty'')], s)
        else
          let subtotal = fold (\<lambda>item sum. sum + lineTotal item) sessionCart 0;
              speechSummary = createSpeechFriendlySummary sessionCart subtotal
          in (createSuccessResponse [(''message'', JString speechSummary)], s))"

subsection \<open>upsell\<close>

definition upsellMessage :: "cart \<Rightarrow> string" where
  "upsellMessage sessionCart =
     (let cartItemNames =
            map (\<lambda>item. toLowerCase (if item_name item \<noteq> [] then item_name item else name item))
              sessionCart;
          hasFries = list_ex (\<lambda>item. str_includes item ''fries'') cartItemNames;
          hasMac = list_ex (\<lambda>item. str_includes item ''mac'') cartItemNames;
          hasSlaw = list_ex (\<lambda>item. str_includes item ''slaw'') cartItemNames;
          hasToffee = list_ex (\<lambda>item. str_includes item ''toffee'') cartItemNames;
          message = ''Before I confirm, would you like to add '';
          parts = (if \<not> hasFries then [''regular fries, cheese fries''] else [])
                  @ (if \<not> hasMac then [''mac & cheese''] else [])
                  @ (if \<not> hasSlaw then [''slaw''] else []);
          dessertPart = (if \<not> hasToffee then '', we also have toffee cake for dessert'' else [])
      in if length parts = 0 then []
         else if length parts = 1 then message @ hd parts @ dessertPart @ ''?''
         else message @ join '', '' (butlast parts) @ '', or '' @ last parts @ dessertPart @ ''?'')"

definition upsell :: "store \<Rightarrow> request \<Rightarrow> response \<times> store" where
  "upsell s req =
     (if \<not> truthy (call_id req)
      then (createErrorResponse 400 ''Missing call ID in request'' [], s)
      else (createSuccessResponse
              [(''message'', JString (upsellMessage (getSessionCart s (the (call_id req)))))], s))"

subsection \<open>addModifierToCart\<close>

text \<open>
  Lines 797 to 811: for an item that is not a two-piece item, the first category that
  has an option of the requested name, trimmed on both sides.
\<close>

fun searchCategories :: "menu_category list \<Rightarrow> string \<Rightarrow> modifier option" where
  "searchCategories [] firstMod = None"
| "searchCategories (modifierCategory # rest) firstMod =
     (case find (\<lambda>opt. trim (opt_name opt) = trim firstMod) (cat_options modifierCategory) of
        Some opt \<Rightarrow>
          Some \<lparr>category = cat_category modifierCategory, optionId = opt_id opt,
                optionName = opt_name opt, price = of_int (opt_price opt) / 100,
                currency = (if opt_currency opt = [] then ''USD'' else opt_currency opt)\<rparr>
      | None \<Rightarrow> searchCategories rest firstMod)"

definition firstModifierDetails :: "menu_item \<Rightarrow> bool \<Rightarrow> string \<Rightarrow> modifier option" where
  "firstModifierDetails menuItem is2PcItem firstMod =
     (if is2PcItem
      then findModifierInCategory menuItem firstMod ''Choose Your First Sandwich Mods''
      else searchCategories (mi_modifiers menuItem) firstMod)"

definition secondModifierDetails :: "menu_item \<Rightarrow> string \<Rightarrow> modifier option" where
  "secondModifierDetails menuItem secondMod =
     findModifierInCategory menuItem secondMod ''Choose Your Second Sandwich Mods''"

text \<open>
  Lines 787 to 842. The two loops push each resolved modifier to \<open>modifiersToApply\<close> and
  each unresolved name to \<open>failedModifiers\<close>, in request order.
\<close>

definition modifiersToApply :: "menu_item \<Rightarrow> bool \<Rightarrow> string list \<Rightarrow> string list \<Rightarrow> modifier list" where
  "modifiersToApply menuItem is2PcItem firstMods secondMods =
     List.map_filter (firstModifierDetails menuItem is2PcItem) firstMods
     @ (if is2PcItem then List.map_filter (secondModifierDetails menuItem) secondMods else [])"

definition failedToResolve :: "menu_item \<Rightarrow> bool \<Rightarrow> string list \<Rightarrow> string list \<Rightarrow> string list" where
  "failedToResolve menuItem is2PcItem firstMods secondMods =
     map (\<lambda>m. m @ '' (first piece)'')
       (filter (\<lambda>m. firstModifierDetails menuItem is2PcItem m = None) firstMods)
     @ (if is2PcItem
        then map (\<lambda>m. m @ '' (second piece)'')
               (filter (\<lambda>m. secondModifierDetails menuItem m = None) secondMods)
        else map (\<lambda>m. m @ '' (second piece - not applicable)'') secondMods)"

text \<open>The test of lines 857 and 998: the cart line carries the requested name.\<close>

definition hasName :: "string \<Rightarrow> cart_item \<Rightarrow> bool" where
  "hasName itemName item = (item_name item = itemName \<or> name item = itemName)"

definition targetCartItemIndex :: "cart \<Rightarrow> string \<Rightarrow> nat option" where
  "targetCartItemIndex sessionCart itemName =
     scan_down (hasName itemName) sessionCart (length sessionCart)"

text \<open>
  Lines 878 to 903. The state is the modifier list of the cart line, \<open>addedModifiers\<close>
  and \<open>skippedModifiers\<close>.
\<close>

fun applyModifiers ::
  "modifier list \<Rightarrow> modifier list \<times> modifier list \<times> string list
     \<Rightarrow> modifier list \<times> modifier list \<times> string list" where
  "applyModifiers [] st = st"
| "applyModifiers (modifierDetails # rest) (mods, added, skipped) =
     (case find (\<lambda>m. optionId m = optionId modifierDetails) mods of
        Some existingModifier \<Rightarrow>
          applyModifiers rest (mods, added, skipped @ [optionName modifierDetails])
      | None \<Rightarrow>
          applyModifiers rest (mods @ [modifierDetails], added @ [modifierDetails], skipped))"

definition modifierSummary :: "modifier \<Rightarrow> json" where
  "modifierSummary m =
     JObject [(''name'', JString (optionName m)), (''price'', JNumber (price m)),
              (''category'', JString (category m))]"

text \<open>
  Lines 855 to 911 of \<^verbatim>\<open>addModifierToCart\<close>, between reading the cart and saving it,
  with the success response of lines 919 to 941.
\<close>

definition addModifierToCart_inMemory ::
  "string \<Rightarrow> modifier list \<Rightarrow> string list \<Rightarrow> nat \<Rightarrow> cart \<Rightarrow> response + cart \<times> response" where
  "addModifierToCart_inMemory itemName toApply failedModifiers totalRequested sessionCart =
     (case targetCartItemIndex sessionCart itemName of
        None \<Rightarrow>
          Inl (createErrorResponse 404
                 (''No '' @ quoted itemName @ '' found in cart to modify. Add the item first.'') [])
      | Some i \<Rightarrow>
          let cartItem = sessionCart ! i;
              (mods, addedModifiers, skippedModifiers) =
                applyModifiers toApply (modifiers cartItem, [], [])
          in
          if addedModifiers = []
          then Inl (createErrorResponse 400
                      (''All modifiers already applied to this item: ''
                         @ join '', '' skippedModifiers) [])
          else
            let newItem = cartItem\<lparr>modifiers := mods,
                            lineTotal := (unitPrice cartItem + modifierTotal mods)
                                         * of_int (quantity cartItem)\<rparr>;
                newCart = sessionCart[i := newItem];
                addedNames = map optionName addedModifiers;
                message =
                  (if length addedNames = 1
                   then ''Added '' @ quoted (hd addedNames) @ '' to '' @ itemName
                   else if length addedNames = totalRequested
                   then ''Added '' @ string_of_nat (length addedNames)
                        @ '' modifiers to '' @ itemName @ '': '' @ join '', '' addedNames
                   else ''Added '' @ string_of_nat (length addedNames) @ '' of ''
                        @ string_of_nat totalRequested @ '' modifiers to ''
                        @ itemName @ '': '' @ join '', '' addedNames)
            in Inr (newCart,
                    createSuccessResponse
                      [(''message'', JString message),
                       (''modifiersAdded'', JArray (map modifierSummary addedModifiers)),
                       (''skippedModifiers'', JArray (map JString skippedModifiers)),
                       (''failedModifiers'', JArray (map JString failedModifiers)),
                       (''newItemTotal'', JNumber (lineTotal newItem))]))"

definition addModifierToCart :: "env \<Rightarrow> store \<Rightarrow> request \<Rightarrow> response \<times> store" where
  "addModifierToCart e s req =
     (if \<not> truthy (call_id req)
      then (createErrorResponse 400 ''Missing call ID in request'' [], s)
      else if \<not> truthy (argItemName req)
      then (createErrorResponse 400 ''Missing required field: itemName'' [], s)
      else if firstSandwichMods req = [] \<and> secondSandwichMods req = []
      then (createErrorResponse 400
              ''At least one modifier array (firstSandwichMods or secondSandwichMods) must contain modifiers''
              [], s)
      else
        let callId = the (call_id req);
            itemName = the (argItemName req);
            firstMods = firstSandwichMods req;
            secondMods = secondSandwichMods req
        in
        (case location_result e of
           Inl msg \<Rightarrow> (createErrorResponse 404 (''Location lookup failed: '' @ msg) [], s)
         | Inr locationData \<Rightarrow>
        (case menu_result e of
           Inl msg \<Rightarrow> (createErrorResponse 404 (''Menu lookup failed: '' @ msg) [], s)
         | Inr locationMenu \<Rightarrow>
        (case map_of locationMenu itemName of
           None \<Rightarrow>
             (createErrorResponse 404
                (''Item '' @ quoted itemName @ '' not found in ''
                   @ restaurantName locationData @ '' menu'')
                [(''availableItems'', availableItems locationMenu)], s)
         | Some menuItem \<Rightarrow>
             let is2PcItem = str_includes itemName ''(2pc)'';
                 toApply = modifiersToApply menuItem is2PcItem firstMods secondMods;
                 failedModifiers = failedToResolve menuItem is2PcItem firstMods secondMods
             in
             if toApply = []
             then (createErrorResponse 404 (''No valid modifiers found for '' @ quoted itemName)
                     [(''failedModifiers'', JArray (map JString failedModifiers)),
                      (''availableCategories'',
                         JArray (map (\<lambda>cat. JString (cat_category cat)) (mi_modifiers menuItem)))],
                   s)
             else
               let sessionCart = getSessionCart s callId
               in persist s callId
                    (addModifierToCart_inMemory itemName toApply failedModifiers
                       (length firstMods + length secondMods) sessionCart)))))"

subsection \<open>removeModifierFromCart\<close>

text \<open>
  The predicate of the \<^verbatim>\<open>findIndex\<close> calls at lines 1027 to 1035 and 1054 to 1057: the
  trimmed option name, and for a two-piece item the category of the piece as well.
\<close>

definition removalMatch :: "bool \<Rightarrow> string \<Rightarrow> string \<Rightarrow> modifier \<Rightarrow> bool" where
  "removalMatch is2PcItem pieceCategory modToRemove m =
     (if is2PcItem
      then trim (optionName m) = trim modToRemove \<and> category m = pieceCategory
      else trim (optionName m) = trim modToRemove)"

text \<open>
  One of the loops at lines 1022 to 1046 and 1052 to 1067. The state is the modifier
  list of the cart line, \<open>removedModifiers\<close> and \<open>failedModifiers\<close>.
\<close>

fun removeModifiers ::
  "(string \<Rightarrow> modifier \<Rightarrow> bool) \<Rightarrow> string \<Rightarrow> string list
     \<Rightarrow> modifier list \<times> modifier list \<times> string list
     \<Rightarrow> modifier list \<times> modifier list \<times> string list" where
  "removeModifiers matches label [] st = st"
| "removeModifiers matches label (modToRemove # rest) (mods, removed, failed) =
     (case findIndex (matches modToRemove) mods of
        Some modifierIndex \<Rightarrow>
          removeModifiers matches label rest
            (splice1 modifierIndex mods, removed @ [mods ! modifierIndex], failed)
      | None \<Rightarrow>
          removeModifiers matches label rest (mods, removed, failed @ [modToRemove @ label]))"

definition removeRequested ::
  "bool \<Rightarrow> string list \<Rightarrow> string list \<Rightarrow> modifier list
     \<Rightarrow> modifier list \<times> modifier list \<times> string list" where
  "removeRequested is2PcItem firstMods secondMods mods0 =
     (let st1 = removeModifiers (removalMatch is2PcItem ''Choose Your First Sandwich Mods'')
                  '' (first piece)'' firstMods (mods0, [], [])
      in if is2PcItem
         then removeModifiers (removalMatch is2PcItem ''Choose Your Second Sandwich Mods'')
                '' (second piece)'' secondMods st1
         else (case st1 of (mods, removed, failed) \<Rightarrow>
                 (mods, removed,
                  failed @ map (\<lambda>m. m @ '' (second piece - not applicable)'') secondMods)))"

text \<open>
  Lines 991 to 1087 of \<^verbatim>\<open>removeModifierFromCart\<close>, between reading the cart and saving
  it, with the success response of lines 1095 to 1116.
\<close>

definition removeModifierFromCart_inMemory ::
  "string \<Rightarrow> string list \<Rightarrow> string list \<Rightarrow> cart \<Rightarrow> response + cart \<times> response" where
  "removeModifierFromCart_inMemory itemName firstMods secondMods sessionCart =
     (if sessionCart = []
      then Inl (createErrorResponse 400 ''Cart is empty'' [])
      else
        (case targetCartItemIndex sessionCart itemName of
           None \<Rightarrow>
             Inl (createErrorResponse 404
                    (''No '' @ quoted itemName @ '' found in cart to modify'') [])
         | Some i \<Rightarrow>
             let cartItem = sessionCart ! i in
             if modifiers cartItem = []
             then Inl (createErrorResponse 404 (''No modifiers found on '' @ quoted itemName) [])
             else
               let is2PcItem = str_includes itemName ''(2pc)'';
                   (mods, removedModifiers, failedModifiers) =
                     removeRequested is2PcItem firstMods secondMods (modifiers cartItem)
               in
               if removedModifiers = []
               then Inl (createErrorResponse 404
                           (''No specified modifiers found on '' @ quoted itemName)
                           [(''failedModifiers'', JArray (map JString failedModifiers)),
                            (''availableModifiers'',
                               JArray (map (\<lambda>m. JString (optionName m @ '' ('' @ category m @ '')''))
                                         mods))])
               else
                 let newItem = cartItem\<lparr>modifiers := mods,
                                 lineTotal := (unitPrice cartItem + modifierTotal mods)
                                              * of_int (quantity cartItem)\<rparr>;
                     newCart = sessionCart[i := newItem];
                     removedNames = map optionName removedModifiers;
                     totalRequested = length firstMods + length secondMods;
                     message =
                       (if length removedNames = 1
                        then ''Removed '' @ quoted (hd removedNames) @ '' from '' @ itemName
                        else if length removedNames = totalRequested
                        then ''Removed '' @ string_of_nat (length removedNames)
                             @ '' modifiers from '' @ itemName @ '': ''
                             @ join '', '' removedNames
                        else ''Removed '' @ string_of_nat (length removedNames) @ '' of ''
                             @ string_of_nat totalRequested @ '' modifiers from ''
                             @ itemName @ '': '' @ join '', '' removedNames)
                 in Inr (newCart,
                         createSuccessResponse
                           [(''message'', JString message),
                            (''modifiersRemoved'', JArray (map modifierSummary removedModifiers)),
                            (''failedModifiers'', JArray (map JString failedModifiers)),
                            (''newItemTotal'', JNumber (lineTotal newItem))])))"

definition removeModifierFromCart :: "store \<Rightarrow> request \<Rightarrow> response \<times> store" where
  "removeModifierFromCart s req =
     (if \<not> truthy (call_id req)
      then (createErrorResponse 400 ''Missing call ID in request'' [], s)
      else if \<not> truthy (argItemName req)
      then (createErrorResponse 400 ''Missing required field: itemName'' [], s)
      else if firstSandwichMods req = [] \<and> secondSandwichMods req = []
      then (createErrorResponse 400
              ''At least one modifier array (firstSandwichMods or secondSandwichMods) must contain modifiers to remove''
              [], s)
      else
        let callId = the (call_id req);
            itemName = the (argItemName req);
            sessionCart = getSessionCart s callId
        in persist s callId
             (removeModifierFromCart_inMemory itemName (firstSandwichMods req)
                (secondSandwichMods req) sessionCart))"

subsection \<open>The properties of the specification, in its words\<close>

text \<open>
  The line-total invariant of the data model: the line total is the unit price plus
  the prices of the applied modifiers, times the quantity.
\<close>

definition lineTotalInvariant :: "cart_item \<Rightarrow> bool" where
  "lineTotalInvariant item =
     (lineTotal item
        = (unitPrice item + sum_list (map price (modifiers item))) * of_int (quantity item))"

text \<open>
  Mergeable lines of the data model: same variation, same special instructions and the
  same multiset of applied option ids.
\<close>

definition mergeable :: "cart_item \<Rightarrow> cart_item \<Rightarrow> bool" where
  "mergeable a b =
     (itemId a = itemId b \<and> specialInstructions a = specialInstructions b
      \<and> mset (map optionId (modifiers a)) = mset (map optionId (modifiers b)))"

subsection \<open>Example data\<close>

definition spicy_sandwich :: menu_item where
  "spicy_sandwich =
     \<lparr>mi_variation_id = ''V1'', mi_price = 899, mi_currency = ''USD'', mi_description = [],
      mi_modifiers =
        [\<lparr>cat_category = ''Choose Your First Sandwich Mods'',
          cat_options =
            [\<lparr>opt_id = ''M1'', opt_name = ''Mild'', opt_price = 0, opt_currency = ''USD''\<rparr>,
             \<lparr>opt_id = ''C1'', opt_name = ''Add cheese 1'', opt_price = 100,
              opt_currency = ''USD''\<rparr>]\<rparr>,
         \<lparr>cat_category = ''Choose Your Second Sandwich Mods'',
          cat_options =
            [\<lparr>opt_id = ''H2'', opt_name = ''Hot'', opt_price = 0, opt_currency = ''USD''\<rparr>]\<rparr>]\<rparr>"

definition side_dish :: "string \<Rightarrow> menu_item" where
  "side_dish v =
     \<lparr>mi_variation_id = v, mi_price = 299, mi_currency = ''USD'', mi_description = [],
      mi_modifiers = []\<rparr>"

definition ex_env :: env where
  "ex_env =
     \<lparr>location_result = Inr \<lparr>locationId = ''L1'', restaurantName = ''Big Bird''\<rparr>,
      menu_result = Inr [(''Spicy Sandwich (2pc)'', spicy_sandwich),
                         (''Fries'', side_dish ''V2''),
                         (''Mac & Cheese'', side_dish ''V3''),
                         (''Slaw'', side_dish ''V4'')]\<rparr>"

definition ex_store :: store where
  "ex_store = \<lparr>cart_table = Map.empty, get_fails = False, put_error = None\<rparr>"

text \<open>A request of session \<open>c1\<close> with no arguments; the examples fill in the arguments.\<close>

definition ex_request :: request where
  "ex_request =
     \<lparr>call_id = Some ''c1'', argItemName = None, argQuantity = None,
      argSpecialInstructions = None, firstItemSpiceLevel = None,
      secondItemSpiceLevel = None, quantityToRemove = None,
      firstSandwichMods = [], secondSandwichMods = []\<rparr>"

definition fries_line :: "int \<Rightarrow> cart_item" where
  "fries_line q = buildCartItem (side_dish ''V2'') ''Fries'' q [] None None"

text \<open>Two spicy sandwiches with cheese on the first one.\<close>

definition cheese_line :: cart_item where
  "cheese_line =
     (buildCartItem spicy_sandwich ''Spicy Sandwich (2pc)'' 2 [] None None)
       \<lparr>modifiers := [\<lparr>category = ''Choose Your First Sandwich Mods'', optionId = ''C1'',
                        optionName = ''Add cheese 1'', price = 1, currency = ''USD''\<rparr>],
        lineTotal := 1998 / 100\<rparr>"

definition store_with :: "cart \<Rightarrow> store" where
  "store_with c = ex_store\<lparr>cart_table := [''c1'' \<mapsto> c]\<rparr>"

text \<open>
  A request that every cart-changing handler accepts on a cart holding \<open>cheese_line\<close>.
\<close>

definition busy_request :: request where
  "busy_request =
     ex_request\<lparr>argItemName := Some ''Spicy Sandwich (2pc)'', argQuantity := Some 1,
                 firstSandwichMods := [''Mild'', ''Add cheese 1'']\<rparr>"

text \<open>Two spicy sandwiches without modifiers.\<close>

definition plain_line :: cart_item where
  "plain_line = buildCartItem spicy_sandwich ''Spicy Sandwich (2pc)'' 2 [] None None"

text \<open>
  A two-piece item whose two categories offer the same options under the same ids, so
  that two orders can apply the same options in a different order.
\<close>

definition twin_sandwich :: menu_item where
  "twin_sandwich =
     \<lparr>mi_variation_id = ''V5'', mi_price = 1099, mi_currency = ''USD'', mi_description = [],
      mi_modifiers =
        [\<lparr>cat_category = ''Choose Your First Sandwich Mods'',
          cat_options =
            [\<lparr>opt_id = ''MILD'', opt_name = ''Mild'', opt_price = 0, opt_currency = ''USD''\<rparr>,
             \<lparr>opt_id = ''HOT'', opt_name = ''Hot'', opt_price = 0, opt_currency = ''USD''\<rparr>]\<rparr>,
         \<lparr>cat_category = ''Choose Your Second Sandwich Mods'',
          cat_options =
            [\<lparr>opt_id = ''MILD'', opt_name = ''Mild'', opt_price = 0, opt_currency = ''USD''\<rparr>,
             \<lparr>opt_id = ''HOT'', opt_name = ''Hot'', opt_price = 0, opt_currency = ''USD''\<rparr>]\<rparr>]\<rparr>"

definition twin_env :: env where
  "twin_env =
     \<lparr>location_result = Inr \<lparr>locationId = ''L1'', restaurantName = ''Big Bird''\<rparr>,
      menu_result = Inr [(''Twin (2pc)'', twin_sandwich)]\<rparr>"

definition twin_request :: "rat \<Rightarrow> string \<Rightarrow> string \<Rightarrow> request" where
  "twin_request q spice1 spice2 =
     ex_request\<lparr>argItemName := Some ''Twin (2pc)'', argQuantity := Some q,
                 firstItemSpiceLevel := Some spice1, secondItemSpiceLevel := Some spice2\<rparr>"

text \<open>
  A two-piece item whose two categories offer an option of the same name under
  different ids, a cart line of it with the option applied to the second piece, and a
  request that names the option for the first piece.
\<close>

definition pickle_sandwich :: menu_item where
  "pickle_sandwich =
     \<lparr>mi_variation_id = ''V6'', mi_price = 999, mi_currency = ''USD'', mi_description = [],
      mi_modifiers =
        [\<lparr>cat_category = ''Choose Your First Sandwich Mods'',
          cat_options =
            [\<lparr>opt_id = ''P1'', opt_name = ''Extra Pickles'', opt_price = 50,
              opt_currency = ''USD''\<rparr>]\<rparr>,
         \<lparr>cat_category = ''Choose Your Second Sandwich Mods'',
          cat_options =
            [\<lparr>opt_id = ''P2'', opt_name = ''Extra Pickles'', opt_price = 50,
              opt_currency = ''USD''\<rparr>]\<rparr>]\<rparr>"

definition pickle_env :: env where
  "pickle_env =
     \<lparr>location_result = Inr \<lparr>locationId = ''L1'', restaurantName = ''Big Bird''\<rparr>,
      menu_result = Inr [(''Pickle Sandwich (2pc)'', pickle_sandwich)]\<rparr>"

definition pickle_line :: cart_item where
  "pickle_line =
     (buildCartItem pickle_sandwich ''Pickle Sandwich (2pc)'' 1 [] None None)
       \<lparr>modifiers := [\<lparr>category = ''Choose Your Second Sandwich Mods'', optionId = ''P2'',
                        optionName = ''Extra Pickles'', price = 1 / 2, currency = ''USD''\<rparr>],
        lineTotal := 1049 / 100\<rparr>"

definition pickle_request :: request where
  "pickle_request =
     ex_request\<lparr>argItemName := Some ''Pickle Sandwich (2pc)'',
                 firstSandwichMods := [''Extra Pickles'']\<rparr>"

section \<open>Basic facts\<close>

lemma isInteger_iff: "isInteger q \<longleftrightarrow> q \<in> \<int>"
  unfolding isInteger_def by (metis Ints_of_int Ints_cases floor_of_int)

lemma modifierTotal_sum_list: "modifierTotal mods = sum_list (map price mods)"
proof -
  have "fold (\<lambda>m acc. acc + price m) mods a = a + sum_list (map price mods)" for a
    by (induction mods arbitrary: a) (simp_all add: add.assoc)
  then show ?thesis by (simp add: modifierTotal_def)
qed

lemma str_includes_self [simp]: "str_includes s s"
  by (cases s) simp_all

lemma truthy_call_id: "truthy x \<Longrightarrow> the x \<noteq> []"
  by (cases x) (auto simp: truthy_def)

lemmas response_defs = createSuccessResponse_def createErrorResponse_def internal_error_def

lemmas ex_defs = ex_env_def ex_store_def ex_request_def store_with_def

lemmas handler_defs =
  addToCart_def addToCart_inMemory_def requestedQuantity_def requestedInstructions_def
  removeFromCart_def removeFromCart_inMemory_def
  addModifierToCart_def addModifierToCart_inMemory_def
  removeModifierFromCart_def removeModifierFromCart_inMemory_def
  persist_def saveSessionCart_def getSessionCart_def truthy_def Let_def

lemmas spice_defs =
  buildCartItem_def findSpiceLevelModifier_def applied_def truthy_def trim_def is_space_def
  toLowerCase_def toLowerCase_char_def Let_def

lemmas resolver_defs =
  modifiersToApply_def failedToResolve_def firstModifierDetails_def secondModifierDetails_def
  findModifierInCategory_def List.map_filter_def trim_def is_space_def applied_def
  targetCartItemIndex_def hasName_def removeRequested_def removalMatch_def splice1_def

subsection \<open>The store\<close>

lemma getSessionCart_read_fails: "get_fails s \<Longrightarrow> getSessionCart s c = []"
  by (simp add: getSessionCart_def)

lemma getSessionCart_put_error_update [simp]:
  "getSessionCart (s\<lparr>put_error := x\<rparr>) c = getSessionCart s c"
  by (simp add: getSessionCart_def)


lemma persist_Inl [simp]: "persist s c (Inl err) = (err, s)"
  by (simp add: persist_def)

lemma persist_Inr_ok:
  "put_error s = None \<Longrightarrow> c \<noteq> [] \<Longrightarrow>
   persist s c (Inr (newCart, ok)) = (ok, s\<lparr>cart_table := (cart_table s)(c \<mapsto> newCart)\<rparr>)"
  by (simp add: persist_def saveSessionCart_def)

lemma persist_Inr_fails:
  "put_error s = Some msg \<Longrightarrow> c \<noteq> [] \<Longrightarrow> persist s c (Inr (newCart, ok)) = (internal_error msg, s)"
  by (simp add: persist_def saveSessionCart_def)

lemma statusCode_internal_error [simp]: "statusCode (internal_error msg) = 500"
  by (simp add: internal_error_def createErrorResponse_def)

lemma statusCode_createErrorResponse [simp]: "statusCode (createErrorResponse n msg extra) = n"
  by (simp add: createErrorResponse_def)

lemma statusCode_createSuccessResponse [simp]: "statusCode (createSuccessResponse d) = 200"
  by (simp add: createSuccessResponse_def)

lemma persist_error_keeps_store:
  assumes "statusCode (fst (persist s c outcome)) \<noteq> 200"
    and "\<And>newCart ok. outcome = Inr (newCart, ok) \<Longrightarrow> statusCode ok = 200"
  shows "snd (persist s c outcome) = s"
  using assms by (auto simp: persist_def split: sum.splits prod.splits)


lemma persist_response_cong:
  assumes "put_error s = put_error t"
  shows "fst (persist s c outcome) = fst (persist t c outcome)"
  using assms by (auto simp: persist_def saveSessionCart_def split: sum.splits prod.splits option.splits)

subsection \<open>Status codes of the in-memory parts\<close>

lemma removeFromCart_inMemory_status:
  "removeFromCart_inMemory n q c = Inl err \<Longrightarrow> statusCode err = 400 \<or> statusCode err = 404"
  "removeFromCart_inMemory n q c = Inr (newCart, ok) \<Longrightarrow> statusCode ok = 200"
  by (auto simp: removeFromCart_inMemory_def Let_def split: if_splits option.splits)

lemma addModifierToCart_inMemory_status:
  "addModifierToCart_inMemory n ms f k c = Inl err \<Longrightarrow> statusCode err = 400 \<or> statusCode err = 404"
  "addModifierToCart_inMemory n ms f k c = Inr (newCart, ok) \<Longrightarrow> statusCode ok = 200"
  by (auto simp: addModifierToCart_inMemory_def Let_def split: if_splits option.splits prod.splits)

lemma removeModifierFromCart_inMemory_status:
  "removeModifierFromCart_inMemory n f1 f2 c = Inl err \<Longrightarrow> statusCode err = 400 \<or> statusCode err = 404"
  "removeModifierFromCart_inMemory n f1 f2 c = Inr (newCart, ok) \<Longrightarrow> statusCode ok = 200"
  by (auto simp: removeModifierFromCart_inMemory_def Let_def split: if_splits option.splits prod.splits)

subsection \<open>Shape of the handlers\<close>

lemma addToCart_inMemory_status:
  "addToCart_inMemory loc mi n q req c \<noteq> Inl err"
  "addToCart_inMemory loc mi n q req c = Inr (newCart, ok) \<Longrightarrow> statusCode ok = 200"
  by (auto simp: addToCart_inMemory_def Let_def)

text \<open>
  Each handler either rejects the request before it reads the cart, with a response
  that does not depend on the store, or runs its in-memory part on the cart read and
  ends with \<open>persist\<close>.
\<close>

lemma addToCart_shape:
  "(\<forall>s t. snd (addToCart e s req) = s
        \<and> (statusCode (fst (addToCart e s req)) = 400 \<or> statusCode (fst (addToCart e s req)) = 404)
        \<and> fst (addToCart e s req) = fst (addToCart e t req))
   \<or> (truthy (call_id req) \<and> truthy (argItemName req)
      \<and> 0 < requestedQuantity req \<and> requestedQuantity req \<in> \<int>
      \<and> (\<exists>loc locationMenu menuItem.
            location_result e = Inr loc \<and> menu_result e = Inr locationMenu
          \<and> map_of locationMenu (the (argItemName req)) = Some menuItem
          \<and> (\<forall>s. addToCart e s req =
                 persist s (the (call_id req))
                   (addToCart_inMemory loc menuItem (the (argItemName req))
                      \<lfloor>requestedQuantity req\<rfloor> req (getSessionCart s (the (call_id req)))))))"
  by (cases "truthy (call_id req)"; cases "truthy (argItemName req)";
      cases "location_result e"; cases "menu_result e";
      cases "map_of (projr (menu_result e)) (the (argItemName req))")
    (simp_all add: addToCart_def Let_def isInteger_iff not_le)

lemma addToCart_cases [case_names rejected reached]:
  obtains "\<And>s. snd (addToCart e s req) = s"
      and "\<And>s. statusCode (fst (addToCart e s req)) = 400
               \<or> statusCode (fst (addToCart e s req)) = 404"
      and "\<And>s t. fst (addToCart e s req) = fst (addToCart e t req)"
  | loc locationMenu menuItem where "truthy (call_id req)" and "truthy (argItemName req)"
      and "0 < requestedQuantity req" and "requestedQuantity req \<in> \<int>"
      and "location_result e = Inr loc" and "menu_result e = Inr locationMenu"
      and "map_of locationMenu (the (argItemName req)) = Some menuItem"
      and "\<And>s. addToCart e s req =
             persist s (the (call_id req))
               (addToCart_inMemory loc menuItem (the (argItemName req))
                  \<lfloor>requestedQuantity req\<rfloor> req (getSessionCart s (the (call_id req))))"
  using addToCart_shape [of e req] by blast

lemma removeFromCart_shape:
  "(\<forall>s t. snd (removeFromCart s req) = s
        \<and> statusCode (fst (removeFromCart s req)) = 400
        \<and> fst (removeFromCart s req) = fst (removeFromCart t req))
   \<or> (truthy (call_id req) \<and> truthy (argItemName req)
      \<and> (\<forall>s. removeFromCart s req =
             persist s (the (call_id req))
               (removeFromCart_inMemory (the (argItemName req)) (quantityToRemove req)
                  (getSessionCart s (the (call_id req))))))"
  by (cases "truthy (call_id req)"; cases "truthy (argItemName req)")
    (simp_all add: removeFromCart_def Let_def)

lemma removeFromCart_cases [case_names rejected reached]:
  obtains "\<And>s. snd (removeFromCart s req) = s"
      and "\<And>s. statusCode (fst (removeFromCart s req)) = 400"
      and "\<And>s t. fst (removeFromCart s req) = fst (removeFromCart t req)"
  | "truthy (call_id req)" and "truthy (argItemName req)"
      and "\<And>s. removeFromCart s req =
             persist s (the (call_id req))
               (removeFromCart_inMemory (the (argItemName req)) (quantityToRemove req)
                  (getSessionCart s (the (call_id req))))"
  using removeFromCart_shape [of req] by blast

lemma addModifierToCart_shape:
  "(\<forall>s t. snd (addModifierToCart e s req) = s
        \<and> (statusCode (fst (addModifierToCart e s req)) = 400
           \<or> statusCode (fst (addModifierToCart e s req)) = 404)
        \<and> fst (addModifierToCart e s req) = fst (addModifierToCart e t req))
   \<or> (truthy (call_id req) \<and> truthy (argItemName req)
      \<and> \<not> (firstSandwichMods req = [] \<and> secondSandwichMods req = [])
      \<and> (\<exists>locationMenu menuItem.
            menu_result e = Inr locationMenu
          \<and> map_of locationMenu (the (argItemName req)) = Some menuItem
          \<and> modifiersToApply menuItem (str_includes (the (argItemName req)) ''(2pc)'')
                (firstSandwichMods req) (secondSandwichMods req) \<noteq> []
          \<and> (\<forall>s. addModifierToCart e s req =
                 persist s (the (call_id req))
                   (addModifierToCart_inMemory (the (argItemName req))
                      (modifiersToApply menuItem (str_includes (the (argItemName req)) ''(2pc)'')
                         (firstSandwichMods req) (secondSandwichMods req))
                      (failedToResolve menuItem (str_includes (the (argItemName req)) ''(2pc)'')
                         (firstSandwichMods req) (secondSandwichMods req))
                      (length (firstSandwichMods req) + length (secondSandwichMods req))
                      (getSessionCart s (the (call_id req)))))))"
  by (cases "truthy (call_id req)"; cases "truthy (argItemName req)";
      cases "firstSandwichMods req = []"; cases "secondSandwichMods req = []";
      cases "location_result e"; cases "menu_result e";
      cases "map_of (projr (menu_result e)) (the (argItemName req))";
      cases "modifiersToApply (the (map_of (projr (menu_result e)) (the (argItemName req))))
               (str_includes (the (argItemName req)) ''(2pc)'')
               (firstSandwichMods req) (secondSandwichMods req) = []")
    (simp_all add: addModifierToCart_def Let_def)

lemma addModifierToCart_cases [case_names rejected reached]:
  obtains "\<And>s. snd (addModifierToCart e s req) = s"
      and "\<And>s. statusCode (fst (addModifierToCart e s req)) = 400
               \<or> statusCode (fst (addModifierToCart e s req)) = 404"
      and "\<And>s t. fst (addModifierToCart e s req) = fst (addModifierToCart e t req)"
  | locationMenu menuItem where "truthy (call_id req)" and "truthy (argItemName req)"
      and "\<not> (firstSandwichMods req = [] \<and> secondSandwichMods req = [])"
      and "menu_result e = Inr locationMenu"
      and "map_of locationMenu (the (argItemName req)) = Some menuItem"
      and "modifiersToApply menuItem (str_includes (the (argItemName req)) ''(2pc)'')
                (firstSandwichMods req) (secondSandwichMods req) \<noteq> []"
      and "\<And>s. addModifierToCart e s req =
                 persist s (the (call_id req))
                   (addModifierToCart_inMemory (the (argItemName req))
                      (modifiersToApply menuItem (str_includes (the (argItemName req)) ''(2pc)'')
                         (firstSandwichMods req) (secondSandwichMods req))
                      (failedToResolve menuItem (str_includes (the (argItemName req)) ''(2pc)'')
                         (firstSandwichMods req) (secondSandwichMods req))
                      (length (firstSandwichMods req) + length (secondSandwichMods req))
                      (getSessionCart s (the (call_id req))))"
  using addModifierToCart_shape [of e req] by blast

lemma removeModifierFromCart_shape:
  "(\<forall>s t. snd (removeModifierFromCart s req) = s
        \<and> statusCode (fst (removeModifierFromCart s req)) = 400
        \<and> fst (removeModifierFromCart s req) = fst (removeModifierFromCart t req))
   \<or> (truthy (call_id req) \<and> truthy (argItemName req)
      \<and> \<not> (firstSandwichMods req = [] \<and> secondSandwichMods req = [])
      \<and> (\<forall>s. removeModifierFromCart s req =
             persist s (the (call_id req))
               (removeModifierFromCart_inMemory (the (argItemName req)) (firstSandwichMods req)
                  (secondSandwichMods req) (getSessionCart s (the (call_id req))))))"
  by (cases "truthy (call_id req)"; cases "truthy (argItemName req)";
      cases "firstSandwichMods req = []"; cases "secondSandwichMods req = []")
    (simp_all add: removeModifierFromCart_def Let_def)

lemma removeModifierFromCart_cases [case_names rejected reached]:
  obtains "\<And>s. snd (removeModifierFromCart s req) = s"
      and "\<And>s. statusCode (fst (removeModifierFromCart s req)) = 400"
      and "\<And>s t. fst (removeModifierFromCart s req) = fst (removeModifierFromCart t req)"
  | "truthy (call_id req)" and "truthy (argItemName req)"
      and "\<not> (firstSandwichMods req = [] \<and> secondSandwichMods req = [])"
      and "\<And>s. removeModifierFromCart s req =
             persist s (the (call_id req))
               (removeModifierFromCart_inMemory (the (argItemName req)) (firstSandwichMods req)
                  (secondSandwichMods req) (getSessionCart s (the (call_id req))))"
  using removeModifierFromCart_shape [of req] by blast

lemma put_error_surfaces:
  assumes "put_error s = Some msg" and "truthy cid"
    and "\<And>s. h s = persist s (the cid) (F (getSessionCart s (the cid)))"
    and "\<And>c err. F c = Inl err \<Longrightarrow> statusCode err \<noteq> 200"
    and "statusCode (fst (h (s\<lparr>put_error := None\<rparr>))) = 200"
  shows "h s = (internal_error msg, s)"
proof -
  obtain nc ok where "F (getSessionCart s (the cid)) = Inr (nc, ok)"
    using assms(3) [of "s\<lparr>put_error := None\<rparr>"] assms(4,5)
    by (cases "F (getSessionCart s (the cid))") auto
  then show ?thesis
    using assms(1,2) by (simp add: assms(3) persist_Inr_fails truthy_call_id)
qed

lemma read_fails_response:
  assumes "get_fails t"
    and "\<And>s. h s = persist s c (F (getSessionCart s c))"
  shows "fst (h t) = fst (h (t\<lparr>cart_table := Map.empty, get_fails := False\<rparr>))"
proof -
  have "getSessionCart t c = getSessionCart (t\<lparr>cart_table := Map.empty, get_fails := False\<rparr>) c"
    using assms(1) by (simp add: getSessionCart_def)
  then show ?thesis
    unfolding assms(2)
    using persist_response_cong [of t "t\<lparr>cart_table := Map.empty, get_fails := False\<rparr>" c]
    by simp
qed

subsection \<open>The reverse scan\<close>

lemma scan_down_Some_iff:
  "scan_down P xs n = Some i \<longleftrightarrow> i < n \<and> P (xs ! i) \<and> (\<forall>j. i < j \<and> j < n \<longrightarrow> \<not> P (xs ! j))"
proof (induction n)
  case 0
  then show ?case by simp
next
  case (Suc n)
  show ?case
  proof (cases "P (xs ! n)")
    case True
    have "i = n"
      if "i < Suc n" and "\<forall>j. i < j \<and> j < Suc n \<longrightarrow> \<not> P (xs ! j)"
    proof (rule ccontr)
      assume "i \<noteq> n"
      with that(1) have "i < n \<and> n < Suc n" by simp
      with that(2) True show False by blast
    qed
    with True show ?thesis by auto
  next
    case False
    then show ?thesis
      using Suc by (auto simp: less_Suc_eq)
  qed
qed


lemma targetCartItemIndex_Some:
  "targetCartItemIndex cart n = Some i \<longleftrightarrow>
     i < length cart \<and> hasName n (cart ! i)
     \<and> (\<forall>j. i < j \<and> j < length cart \<longrightarrow> \<not> hasName n (cart ! j))"
  by (simp add: targetCartItemIndex_def scan_down_Some_iff)





lemma removeModifierFromCart_validated:
  assumes "truthy (call_id req)" and "truthy (argItemName req)"
    and "\<not> (firstSandwichMods req = [] \<and> secondSandwichMods req = [])"
  shows "removeModifierFromCart s req =
           persist s (the (call_id req))
             (removeModifierFromCart_inMemory (the (argItemName req)) (firstSandwichMods req)
                (secondSandwichMods req) (getSessionCart s (the (call_id req))))"
  using assms by (auto simp: removeModifierFromCart_def Let_def)

lemma getSessionCart_nonempty:
  assumes "getSessionCart s c \<noteq> []"
  shows "get_fails s = False" and "c \<noteq> []" and "cart_table s c = Some (getSessionCart s c)"
  using assms by (auto simp: getSessionCart_def split: if_splits option.splits)

subsection \<open>findIndex\<close>

lemma findIndex_None_iff: "findIndex P xs = None \<longleftrightarrow> (\<forall>x\<in>set xs. \<not> P x)"
  by (induction xs) auto

lemma findIndex_Some:
  "findIndex P xs = Some i \<Longrightarrow> i < length xs \<and> P (xs ! i) \<and> (\<forall>j<i. \<not> P (xs ! j))"
proof (induction xs arbitrary: i)
  case Nil
  then show ?case by simp
next
  case (Cons x xs)
  show ?case
  proof (cases "P x")
    case True
    with Cons.prems show ?thesis by simp
  next
    case False
    with Cons.prems obtain k where k: "findIndex P xs = Some k" "i = Suc k"
      by auto
    from Cons.IH [OF k(1)] False k(2) show ?thesis
      by (auto simp: nth_Cons split: nat.splits)
  qed
qed

subsection \<open>Mergeable lines\<close>

lemma sort_eq_iff_mset:
  fixes xs ys :: "'a::linorder list"
  shows "sort xs = sort ys \<longleftrightarrow> mset xs = mset ys"
proof
  assume "sort xs = sort ys"
  then have "mset (sort xs) = mset (sort ys)" by simp
  then show "mset xs = mset ys" by simp
next
  assume "mset xs = mset ys"
  then show "sort xs = sort ys"
    by (metis mset_sort properties_for_sort sorted_sort)
qed

lemma sameConfiguration_iff_mergeable: "sameConfiguration c item \<longleftrightarrow> mergeable c item"
proof -
  have "length (modifiers item) = length (modifiers c)"
    if "mset (map optionId (modifiers c)) = mset (map optionId (modifiers item))"
    using that by (metis length_map size_mset)
  then show ?thesis
    by (auto simp: sameConfiguration_def mergeable_def sort_eq_iff_mset)
qed

lemma mergeable_refl [simp]: "mergeable a a"
  by (simp add: mergeable_def)

lemma mergeable_sym: "mergeable a b \<Longrightarrow> mergeable b a"
  by (simp add: mergeable_def)

lemma mergeable_trans: "mergeable a b \<Longrightarrow> mergeable b c \<Longrightarrow> mergeable a c"
  by (simp add: mergeable_def)

lemma mergeable_update [simp]:
  "mergeable d (x\<lparr>quantity := q, lineTotal := t\<rparr>) = mergeable d x"
  by (simp add: mergeable_def)

subsection \<open>Lists with one element replaced\<close>

lemma length_filter_update:
  "i < length xs \<Longrightarrow> P (xs ! i) \<Longrightarrow> P y
   \<Longrightarrow> length (filter P (xs[i := y])) = length (filter P xs)"
proof (induction xs arbitrary: i)
  case Nil
  then show ?case by simp
next
  case (Cons x xs)
  then show ?case by (cases i) auto
qed

lemma sum_filter_update:
  fixes f :: "'a \<Rightarrow> int"
  shows "i < length xs \<Longrightarrow> P (xs ! i) \<Longrightarrow> P y
   \<Longrightarrow> sum_list (map f (filter P (xs[i := y])))
       = sum_list (map f (filter P xs)) - f (xs ! i) + f y"
proof (induction xs arbitrary: i)
  case Nil
  then show ?case by simp
next
  case (Cons x xs)
  then show ?case by (cases i) auto
qed

subsection \<open>mergeOrAppend\<close>

lemma mergeOrAppend_count:
  assumes "mergeable d c"
  shows "length (filter (mergeable d) (mergeOrAppend cart c q))
           = max 1 (length (filter (mergeable d) cart))"
proof (cases "findIndex (sameConfiguration c) cart")
  case None
  then have "\<forall>x\<in>set cart. \<not> mergeable d x"
    using assms
    by (metis findIndex_None_iff sameConfiguration_iff_mergeable mergeable_sym mergeable_trans)
  then have "filter (mergeable d) cart = []"
    by (simp add: filter_empty_conv)
  with None assms show ?thesis
    by (simp add: mergeOrAppend_def)
next
  case (Some i)
  from findIndex_Some [OF Some] have i: "i < length cart" "sameConfiguration c (cart ! i)"
    by simp_all
  then have m: "mergeable d (cart ! i)"
    using assms by (metis sameConfiguration_iff_mergeable mergeable_trans)
  have "cart ! i \<in> set (filter (mergeable d) cart)"
    using i(1) m by simp
  then have "1 \<le> length (filter (mergeable d) cart)"
    by (metis One_nat_def Suc_leI length_pos_if_in_set)
  then show ?thesis
    using Some i(1) m by (simp add: mergeOrAppend_def Let_def length_filter_update)
qed

lemma mergeOrAppend_quantity:
  assumes "mergeable d c" and "quantity c = q"
  shows "sum_list (map quantity (filter (mergeable d) (mergeOrAppend cart c q)))
           = sum_list (map quantity (filter (mergeable d) cart)) + q"
proof (cases "findIndex (sameConfiguration c) cart")
  case None
  then have "\<forall>x\<in>set cart. \<not> mergeable d x"
    using assms(1)
    by (metis findIndex_None_iff sameConfiguration_iff_mergeable mergeable_sym mergeable_trans)
  then have "filter (mergeable d) cart = []"
    by (simp add: filter_empty_conv)
  with None assms show ?thesis
    by (simp add: mergeOrAppend_def)
next
  case (Some i)
  from findIndex_Some [OF Some] have i: "i < length cart" "sameConfiguration c (cart ! i)"
    by simp_all
  then have m: "mergeable d (cart ! i)"
    using assms(1) by (metis sameConfiguration_iff_mergeable mergeable_trans)
  show ?thesis
    using Some i(1) m by (simp add: mergeOrAppend_def Let_def sum_filter_update)
qed

lemma buildCartItem_fields [simp]:
  "quantity (buildCartItem mi n q instr f2 s2) = q"
  "itemId (buildCartItem mi n q instr f2 s2) = mi_variation_id mi"
  "specialInstructions (buildCartItem mi n q instr f2 s2) = instr"
  "unitPrice (buildCartItem mi n q instr f2 s2) = of_int (mi_price mi) / 100"
  "name (buildCartItem mi n q instr f2 s2) = n"
  "item_name (buildCartItem mi n q instr f2 s2) = n"
  by (simp_all add: buildCartItem_def Let_def split: prod.splits)

lemma addToCart_accepted:
  assumes "put_error s = None"
    and "location_result e = Inr loc" and "menu_result e = Inr m" and "map_of m n = Some mi"
    and "call_id req = Some c" and "c \<noteq> []" and "argItemName req = Some n" and "n \<noteq> []"
    and "argQuantity req = Some (of_int q)" and "0 < q"
  shows "statusCode (fst (addToCart e s req)) = 200"
    and "snd (addToCart e s req)
           = s\<lparr>cart_table := (cart_table s)(c \<mapsto>
                 mergeOrAppend (getSessionCart s c)
                   (buildCartItem mi n q (requestedInstructions req)
                      (firstItemSpiceLevel req) (secondItemSpiceLevel req)) q)\<rparr>"
proof -
  have rq: "requestedQuantity req = of_int q"
    using assms(9,10) by (simp add: requestedQuantity_def)
  have "addToCart e s req
          = persist s c (addToCart_inMemory loc mi n q req (getSessionCart s c))"
    using assms by (simp add: addToCart_def Let_def rq truthy_def isInteger_iff)
  then show "statusCode (fst (addToCart e s req)) = 200"
    and "snd (addToCart e s req)
           = s\<lparr>cart_table := (cart_table s)(c \<mapsto>
                 mergeOrAppend (getSessionCart s c)
                   (buildCartItem mi n q (requestedInstructions req)
                      (firstItemSpiceLevel req) (secondItemSpiceLevel req)) q)\<rparr>"
    using assms(1,6) by (simp_all add: addToCart_inMemory_def Let_def persist_Inr_ok)
qed

lemma getSessionCart_updated:
  "get_fails s = False \<Longrightarrow> c \<noteq> []
   \<Longrightarrow> getSessionCart (s\<lparr>cart_table := (cart_table s)(c \<mapsto> x)\<rparr>) c = x"
  by (simp add: getSessionCart_def)

subsection \<open>Lists: removing the element at an index\<close>

lemma splice1_eq_remove1:
  "distinct xs \<Longrightarrow> k < length xs \<Longrightarrow> splice1 k xs = remove1 (xs ! k) xs"
proof (induction xs arbitrary: k)
  case Nil
  then show ?case by simp
next
  case (Cons x xs)
  show ?case
  proof (cases k)
    case 0
    then show ?thesis by (simp add: splice1_def)
  next
    case (Suc j)
    with Cons.prems have "xs ! j \<noteq> x" by auto
    with Cons Suc show ?thesis by (auto simp: splice1_def)
  qed
qed

lemma findIndex_append_miss:
  "\<forall>x\<in>set xs. \<not> P x
   \<Longrightarrow> findIndex P (xs @ ys) = map_option (\<lambda>k. length xs + k) (findIndex P ys)"
proof (induction xs)
  case Nil
  show ?case by (cases "findIndex P ys") simp_all
next
  case (Cons x xs)
  then show ?case by (cases "findIndex P ys") simp_all
qed

lemma splice1_append:
  "splice1 (length xs + k) (xs @ ys) = xs @ splice1 k ys"
  by (simp add: splice1_def)

subsection \<open>The loop of removeModifierFromCart\<close>

lemma removeModifiers_suffix:
  assumes "\<forall>n\<in>set names. \<forall>m\<in>set old. \<not> matches n m"
    and "\<forall>n\<in>set names. \<forall>a\<in>set A. \<forall>b\<in>set A. matches n a \<longrightarrow> matches n b \<longrightarrow> a = b"
    and "distinct A"
  shows "\<exists>R F. removeModifiers matches label names (old @ A, removed, failed)
                 = (old @ filter (\<lambda>a. \<not> (\<exists>n\<in>set names. matches n a)) A, removed @ R, failed @ F)
               \<and> length R = length (filter (\<lambda>a. \<exists>n\<in>set names. matches n a) A)"
  using assms
proof (induction names arbitrary: A removed failed)
  case Nil
  then show ?case by simp
next
  case (Cons n ns)
  have old_miss: "\<forall>x\<in>set old. \<not> matches n x"
    using Cons.prems(1) by simp
  show ?case
  proof (cases "findIndex (matches n) A")
    case None
    then have miss: "\<forall>a\<in>set A. \<not> matches n a"
      by (simp add: findIndex_None_iff)
    have f: "findIndex (matches n) (old @ A) = None"
      by (simp add: findIndex_append_miss [OF old_miss] None)
    from Cons.IH [of A removed "failed @ [n @ label]"] Cons.prems
    obtain R F where
      r: "removeModifiers matches label ns (old @ A, removed, failed @ [n @ label])
            = (old @ filter (\<lambda>a. \<not> (\<exists>n\<in>set ns. matches n a)) A, removed @ R,
               (failed @ [n @ label]) @ F)"
      and l: "length R = length (filter (\<lambda>a. \<exists>n\<in>set ns. matches n a) A)"
      by auto
    have e1: "filter (\<lambda>a. \<not> (\<exists>n'\<in>set (n # ns). matches n' a)) A
                = filter (\<lambda>a. \<not> (\<exists>n\<in>set ns. matches n a)) A"
      using miss by (intro filter_cong) auto
    have e2: "filter (\<lambda>a. \<exists>n'\<in>set (n # ns). matches n' a) A
                = filter (\<lambda>a. \<exists>n\<in>set ns. matches n a) A"
      using miss by (intro filter_cong) auto
    show ?thesis
      unfolding e1 e2 using f r l by auto
  next
    case (Some k)
    from findIndex_Some [OF Some] have k: "k < length A" "matches n (A ! k)"
      by simp_all
    define a where "a = A ! k"
    have a: "a \<in> set A" "matches n a"
      using k by (simp_all add: a_def)
    have f: "findIndex (matches n) (old @ A) = Some (length old + k)"
      by (simp add: findIndex_append_miss [OF old_miss] Some)
    have sp: "splice1 (length old + k) (old @ A) = old @ remove1 a A"
      by (simp add: splice1_append splice1_eq_remove1 [OF Cons.prems(3) k(1)] a_def)
    have nth: "(old @ A) ! (length old + k) = a"
      by (simp add: a_def)
    have others: "\<not> matches n b" if "b \<in> set (remove1 a A)" for b
    proof
      assume "matches n b"
      moreover have "b \<in> set A" "b \<noteq> a"
        using that Cons.prems(3) by (auto dest: notin_set_remove1)
      ultimately show False
        using Cons.prems(2) a by auto
    qed
    have p1: "\<forall>n\<in>set ns. \<forall>m\<in>set old. \<not> matches n m"
      using Cons.prems(1) by simp
    have p2: "\<forall>n\<in>set ns. \<forall>x\<in>set (remove1 a A). \<forall>y\<in>set (remove1 a A).
                matches n x \<longrightarrow> matches n y \<longrightarrow> x = y"
      using Cons.prems(2) by (meson list.set_intros(2) notin_set_remove1)
    have p3: "distinct (remove1 a A)"
      using Cons.prems(3) by simp
    from Cons.IH [OF p1 p2 p3, of "removed @ [a]" failed]
    obtain R F where
      r: "removeModifiers matches label ns (old @ remove1 a A, removed @ [a], failed)
            = (old @ filter (\<lambda>x. \<not> (\<exists>n\<in>set ns. matches n x)) (remove1 a A),
               (removed @ [a]) @ R, failed @ F)"
      and l: "length R = length (filter (\<lambda>x. \<exists>n\<in>set ns. matches n x) (remove1 a A))"
      by auto
    have e1: "filter (\<lambda>x. \<not> (\<exists>n\<in>set ns. matches n x)) (remove1 a A)
                = filter (\<lambda>x. \<not> (\<exists>n'\<in>set (n # ns). matches n' x)) A"
    proof -
      have "filter (\<lambda>x. \<not> (\<exists>n\<in>set ns. matches n x)) (remove1 a A)
              = filter (\<lambda>x. \<not> (\<exists>n'\<in>set (n # ns). matches n' x)) (remove1 a A)"
        using others by (intro filter_cong) auto
      also have "\<dots> = remove1 a (filter (\<lambda>x. \<not> (\<exists>n'\<in>set (n # ns). matches n' x)) A)"
        by (simp add: filter_remove1)
      also have "\<dots> = filter (\<lambda>x. \<not> (\<exists>n'\<in>set (n # ns). matches n' x)) A"
        using a(2) by (intro remove1_idem) simp
      finally show ?thesis .
    qed
    have e2: "length (filter (\<lambda>x. \<exists>n'\<in>set (n # ns). matches n' x) A)
                = Suc (length (filter (\<lambda>x. \<exists>n\<in>set ns. matches n x) (remove1 a A)))"
    proof -
      have "filter (\<lambda>x. \<exists>n\<in>set ns. matches n x) (remove1 a A)
              = filter (\<lambda>x. \<exists>n'\<in>set (n # ns). matches n' x) (remove1 a A)"
        using others by (intro filter_cong) auto
      also have "\<dots> = remove1 a (filter (\<lambda>x. \<exists>n'\<in>set (n # ns). matches n' x) A)"
        by (simp add: filter_remove1)
      finally have "length (filter (\<lambda>x. \<exists>n\<in>set ns. matches n x) (remove1 a A))
              = length (filter (\<lambda>x. \<exists>n'\<in>set (n # ns). matches n' x) A) - 1"
        using a by (simp add: length_remove1)
      moreover have "a \<in> set (filter (\<lambda>x. \<exists>n'\<in>set (n # ns). matches n' x) A)"
        using a by simp
      then have "0 < length (filter (\<lambda>x. \<exists>n'\<in>set (n # ns). matches n' x) A)"
        by (rule length_pos_if_in_set)
      ultimately show ?thesis by simp
    qed
    show ?thesis
      unfolding e1 [symmetric] e2 using f sp nth r l by auto
  qed
qed

subsection \<open>The loop of addModifierToCart\<close>

lemma applyModifiers_result:
  "\<exists>new skipped'.
      applyModifiers toApply (mods, added, skipped) = (mods @ new, added @ new, skipped')
    \<and> set new \<subseteq> set toApply \<and> distinct (map optionId new)
    \<and> (\<forall>x\<in>set new. optionId x \<notin> optionId ` set mods)"
proof (induction toApply arbitrary: mods added skipped)
  case Nil
  then show ?case by simp
next
  case (Cons d ds)
  show ?case
  proof (cases "find (\<lambda>m. optionId m = optionId d) mods")
    case (Some m)
    from Cons.IH [of mods added "skipped @ [optionName d]"] Some show ?thesis
      by auto
  next
    case None
    then have fresh: "optionId d \<notin> optionId ` set mods"
      by (auto simp: find_None_iff)
    from Cons.IH [of "mods @ [d]" "added @ [d]" skipped]
    obtain new skipped' where
      r: "applyModifiers ds (mods @ [d], added @ [d], skipped)
            = ((mods @ [d]) @ new, (added @ [d]) @ new, skipped')"
      and sub: "set new \<subseteq> set ds" and dist: "distinct (map optionId new)"
      and ids: "\<forall>x\<in>set new. optionId x \<notin> optionId ` set (mods @ [d])"
      by blast
    have "applyModifiers (d # ds) (mods, added, skipped)
            = (mods @ (d # new), added @ (d # new), skipped')"
      using None r by simp
    moreover have "set (d # new) \<subseteq> set (d # ds)"
      using sub by auto
    moreover have "distinct (map optionId (d # new))"
      using dist ids by auto
    moreover have "\<forall>x\<in>set (d # new). optionId x \<notin> optionId ` set mods"
      using fresh ids by auto
    ultimately show ?thesis by blast
  qed
qed

subsection \<open>What the resolver returns\<close>

lemma findModifierInCategory_Some:
  assumes "findModifierInCategory mi n cat = Some a"
  shows "trim (optionName a) = trim n" and "category a = cat"
  using assms
  by (auto simp: findModifierInCategory_def applied_def find_Some_iff
      split: if_splits option.splits)

lemma findModifierInCategory_trim_cong:
  "n \<noteq> [] \<Longrightarrow> n' \<noteq> [] \<Longrightarrow> trim n = trim n'
   \<Longrightarrow> findModifierInCategory mi n cat = findModifierInCategory mi n' cat"
  by (simp add: findModifierInCategory_def split: option.splits)

lemma findModifierInCategory_nonempty:
  "findModifierInCategory mi n cat = Some a \<Longrightarrow> n \<noteq> []"
  by (auto simp: findModifierInCategory_def)

lemma searchCategories_Some:
  "searchCategories cats n = Some a \<Longrightarrow> trim (optionName a) = trim n"
  by (induction cats) (auto simp: find_Some_iff split: option.splits)

lemma searchCategories_trim_cong:
  "trim n = trim n' \<Longrightarrow> searchCategories cats n = searchCategories cats n'"
  by (induction cats) (simp_all split: option.splits)

lemma set_map_filter: "set (List.map_filter f xs) = {y. \<exists>x\<in>set xs. f x = Some y}"
  by (force simp: List.map_filter_def image_iff)

text \<open>
  Every modifier to apply is matched, at removal, by a requested name of its piece, and
  a requested name matches at most one of them.
\<close>

lemma modifiersToApply_matched:
  assumes "a \<in> set (modifiersToApply mi is2 first second)"
  shows "(\<exists>n\<in>set first. removalMatch is2 ''Choose Your First Sandwich Mods'' n a)
       \<or> (is2 \<and> (\<exists>n\<in>set second. removalMatch is2 ''Choose Your Second Sandwich Mods'' n a))"
  using assms
  by (auto simp: modifiersToApply_def set_map_filter firstModifierDetails_def
      secondModifierDetails_def removalMatch_def
      dest: findModifierInCategory_Some searchCategories_Some split: if_splits)

lemma modifiersToApply_first_unique:
  assumes "a \<in> set (modifiersToApply mi is2 first second)"
    and "b \<in> set (modifiersToApply mi is2 first second)"
    and "removalMatch is2 ''Choose Your First Sandwich Mods'' n a"
    and "removalMatch is2 ''Choose Your First Sandwich Mods'' n b"
  shows "a = b"
proof (cases is2)
  case True
  from assms(1,3) True obtain na where
    na: "na \<in> set first" "findModifierInCategory mi na ''Choose Your First Sandwich Mods'' = Some a"
    by (auto simp: modifiersToApply_def set_map_filter firstModifierDetails_def
        secondModifierDetails_def removalMatch_def dest: findModifierInCategory_Some(2))
  from assms(2,4) True obtain nb where
    nb: "nb \<in> set first" "findModifierInCategory mi nb ''Choose Your First Sandwich Mods'' = Some b"
    by (auto simp: modifiersToApply_def set_map_filter firstModifierDetails_def
        secondModifierDetails_def removalMatch_def dest: findModifierInCategory_Some(2))
  have "trim na = trim nb"
    using assms(3,4) True findModifierInCategory_Some(1) [OF na(2)]
      findModifierInCategory_Some(1) [OF nb(2)]
    by (simp add: removalMatch_def)
  then have "findModifierInCategory mi na ''Choose Your First Sandwich Mods''
               = findModifierInCategory mi nb ''Choose Your First Sandwich Mods''"
    using findModifierInCategory_nonempty [OF na(2)] findModifierInCategory_nonempty [OF nb(2)]
    by (rule findModifierInCategory_trim_cong [rotated 2])
  with na(2) nb(2) show ?thesis by simp
next
  case False
  from assms(1) False obtain na where
    na: "searchCategories (mi_modifiers mi) na = Some a"
    by (auto simp: modifiersToApply_def set_map_filter firstModifierDetails_def)
  from assms(2) False obtain nb where
    nb: "searchCategories (mi_modifiers mi) nb = Some b"
    by (auto simp: modifiersToApply_def set_map_filter firstModifierDetails_def)
  have "trim na = trim nb"
    using assms(3,4) False searchCategories_Some [OF na] searchCategories_Some [OF nb]
    by (simp add: removalMatch_def)
  from searchCategories_trim_cong [OF this, of "mi_modifiers mi"] na nb show ?thesis
    by simp
qed

lemma modifiersToApply_second_unique:
  assumes "a \<in> set (modifiersToApply mi True first second)"
    and "b \<in> set (modifiersToApply mi True first second)"
    and "removalMatch True ''Choose Your Second Sandwich Mods'' n a"
    and "removalMatch True ''Choose Your Second Sandwich Mods'' n b"
  shows "a = b"
proof -
  from assms(1,3) obtain na where
    na: "na \<in> set second" "findModifierInCategory mi na ''Choose Your Second Sandwich Mods'' = Some a"
    by (auto simp: modifiersToApply_def set_map_filter firstModifierDetails_def
        secondModifierDetails_def removalMatch_def dest: findModifierInCategory_Some(2))
  from assms(2,4) obtain nb where
    nb: "nb \<in> set second" "findModifierInCategory mi nb ''Choose Your Second Sandwich Mods'' = Some b"
    by (auto simp: modifiersToApply_def set_map_filter firstModifierDetails_def
        secondModifierDetails_def removalMatch_def dest: findModifierInCategory_Some(2))
  have "trim na = trim nb"
    using assms(3,4) findModifierInCategory_Some(1) [OF na(2)]
      findModifierInCategory_Some(1) [OF nb(2)]
    by (simp add: removalMatch_def)
  then have "findModifierInCategory mi na ''Choose Your Second Sandwich Mods''
               = findModifierInCategory mi nb ''Choose Your Second Sandwich Mods''"
    using findModifierInCategory_nonempty [OF na(2)] findModifierInCategory_nonempty [OF nb(2)]
    by (rule findModifierInCategory_trim_cong [rotated 2])
  with na(2) nb(2) show ?thesis by simp
qed

lemma removeRequested_undoes:
  assumes sub: "set A \<subseteq> set (modifiersToApply mi is2 first second)"
    and dist: "distinct A"
    and old: "\<forall>m\<in>set old.
        (\<forall>n\<in>set first. \<not> removalMatch is2 ''Choose Your First Sandwich Mods'' n m)
        \<and> (is2 \<longrightarrow>
             (\<forall>n\<in>set second. \<not> removalMatch is2 ''Choose Your Second Sandwich Mods'' n m))"
  shows "\<exists>R F. removeRequested is2 first second (old @ A) = (old, R, F) \<and> length R = length A"
proof -
  let ?m1 = "removalMatch is2 ''Choose Your First Sandwich Mods''"
  let ?m2 = "removalMatch is2 ''Choose Your Second Sandwich Mods''"
  let ?P1 = "\<lambda>a. \<exists>n\<in>set first. ?m1 n a"
  let ?P2 = "\<lambda>a. \<exists>n\<in>set second. ?m2 n a"
  let ?A2 = "filter (\<lambda>a. \<not> ?P1 a) A"
  have i1: "\<forall>n\<in>set first. \<forall>m\<in>set old. \<not> ?m1 n m"
    using old by blast
  have u1: "\<forall>n\<in>set first. \<forall>a\<in>set A. \<forall>b\<in>set A. ?m1 n a \<longrightarrow> ?m1 n b \<longrightarrow> a = b"
  proof (intro ballI impI)
    fix n a b
    assume "a \<in> set A" "b \<in> set A" and m: "?m1 n a" "?m1 n b"
    with sub have "a \<in> set (modifiersToApply mi is2 first second)"
      "b \<in> set (modifiersToApply mi is2 first second)"
      by auto
    then show "a = b"
      using m by (rule modifiersToApply_first_unique)
  qed
  from removeModifiers_suffix [OF i1 u1 dist, of "'' (first piece)''" "[]" "[]"]
  obtain R1 F1 where
    l1: "removeModifiers ?m1 '' (first piece)'' first (old @ A, [], []) = (old @ ?A2, R1, F1)"
    and n1: "length R1 = length (filter ?P1 A)"
    by auto
  show ?thesis
  proof (cases is2)
    case False
    have p1: "\<forall>a\<in>set A. ?P1 a"
      using modifiersToApply_matched [of _ mi is2 first second] sub False by auto
    have "?A2 = []" "filter ?P1 A = A"
    proof -
      show "?A2 = []"
        unfolding filter_empty_conv using p1 by blast
      show "filter ?P1 A = A"
        using p1 by (rule filter_True)
    qed
    with l1 n1 False show ?thesis
      by (simp add: removeRequested_def)
  next
    case True
    have i2: "\<forall>n\<in>set second. \<forall>m\<in>set old. \<not> ?m2 n m"
      using old True by blast
    have u2: "\<forall>n\<in>set second. \<forall>a\<in>set ?A2. \<forall>b\<in>set ?A2. ?m2 n a \<longrightarrow> ?m2 n b \<longrightarrow> a = b"
    proof (intro ballI impI)
      fix n a b
      assume "a \<in> set ?A2" "b \<in> set ?A2" and m: "?m2 n a" "?m2 n b"
      with sub True have "a \<in> set (modifiersToApply mi True first second)"
        "b \<in> set (modifiersToApply mi True first second)"
        by auto
      moreover have "removalMatch True ''Choose Your Second Sandwich Mods'' n a"
        "removalMatch True ''Choose Your Second Sandwich Mods'' n b"
        using m True by simp_all
      ultimately show "a = b"
        by (rule modifiersToApply_second_unique)
    qed
    have d2: "distinct ?A2"
      using dist by simp
    from removeModifiers_suffix [OF i2 u2 d2, of "'' (second piece)''" R1 F1]
    obtain R2 F2 where
      l2: "removeModifiers ?m2 '' (second piece)'' second (old @ ?A2, R1, F1)
             = (old @ filter (\<lambda>a. \<not> ?P2 a) ?A2, R1 @ R2, F1 @ F2)"
      and n2: "length R2 = length (filter ?P2 ?A2)"
      by auto
    have p2: "\<forall>a\<in>set ?A2. ?P2 a"
      using modifiersToApply_matched [of _ mi is2 first second] sub by auto
    have e: "filter (\<lambda>a. \<not> ?P2 a) ?A2 = []" "filter ?P2 ?A2 = ?A2"
    proof -
      show "filter (\<lambda>a. \<not> ?P2 a) ?A2 = []"
        unfolding filter_empty_conv using p2 by blast
      show "filter ?P2 ?A2 = ?A2"
        using p2 by (rule filter_True)
    qed
    have "length (R1 @ R2) = length A"
      using n1 n2 e(2) sum_length_filter_compl [of ?P1 A] by simp
    with l1 l2 e(1) True show ?thesis
      by (simp add: removeRequested_def)
  qed
qed

lemma scan_down_cong:
  "(\<And>j. j < k \<Longrightarrow> P (xs ! j) = P (ys ! j)) \<Longrightarrow> scan_down P xs k = scan_down P ys k"
  by (induction k) simp_all

lemma targetCartItemIndex_update:
  assumes "i < length cart" and "hasName n x = hasName n (cart ! i)"
  shows "targetCartItemIndex (cart[i := x]) n = targetCartItemIndex cart n"
  unfolding targetCartItemIndex_def length_list_update
  by (rule scan_down_cong) (use assms in \<open>simp add: nth_list_update\<close>)

lemma addModifierToCart_inMemory_added:
  assumes "addModifierToCart_inMemory n toApply failed k cart = Inr (newCart, ok)"
  obtains i A where "targetCartItemIndex cart n = Some i"
    and "A \<noteq> []" and "set A \<subseteq> set toApply" and "distinct A"
    and "newCart = cart[i := (cart ! i)\<lparr>modifiers := modifiers (cart ! i) @ A,
           lineTotal := (unitPrice (cart ! i) + modifierTotal (modifiers (cart ! i) @ A))
                        * of_int (quantity (cart ! i))\<rparr>]"
proof -
  from assms obtain i where i: "targetCartItemIndex cart n = Some i"
    by (auto simp: addModifierToCart_inMemory_def split: option.splits)
  from applyModifiers_result [of toApply "modifiers (cart ! i)" "[]" "[]"]
  obtain A skipped' where
    a: "applyModifiers toApply (modifiers (cart ! i), [], []) = (modifiers (cart ! i) @ A, A, skipped')"
    and sub: "set A \<subseteq> set toApply" and dist: "distinct (map optionId A)"
    by auto
  from assms i a have "A \<noteq> []"
    and "newCart = cart[i := (cart ! i)\<lparr>modifiers := modifiers (cart ! i) @ A,
           lineTotal := (unitPrice (cart ! i) + modifierTotal (modifiers (cart ! i) @ A))
                        * of_int (quantity (cart ! i))\<rparr>]"
    by (auto simp: addModifierToCart_inMemory_def Let_def split: if_splits)
  with i sub dist that show thesis
    by (metis distinct_map)
qed

lemma removeModifierFromCart_inMemory_nothing:
  assumes "\<forall>i. targetCartItemIndex cart n = Some i \<longrightarrow>
             (\<forall>m\<in>set (modifiers (cart ! i)).
                 (\<forall>x\<in>set first.
                     \<not> removalMatch (str_includes n ''(2pc)'')
                         ''Choose Your First Sandwich Mods'' x m)
                 \<and> (str_includes n ''(2pc)'' \<longrightarrow>
                      (\<forall>x\<in>set second.
                          \<not> removalMatch (str_includes n ''(2pc)'')
                              ''Choose Your Second Sandwich Mods'' x m)))"
  shows "\<exists>err. removeModifierFromCart_inMemory n first second cart = Inl err"
proof (cases "targetCartItemIndex cart n")
  case None
  then show ?thesis
    by (simp add: removeModifierFromCart_inMemory_def)
next
  case (Some i)
  with assms have old: "\<forall>m\<in>set (modifiers (cart ! i)).
                 (\<forall>x\<in>set first.
                     \<not> removalMatch (str_includes n ''(2pc)'')
                         ''Choose Your First Sandwich Mods'' x m)
                 \<and> (str_includes n ''(2pc)'' \<longrightarrow>
                      (\<forall>x\<in>set second.
                          \<not> removalMatch (str_includes n ''(2pc)'')
                              ''Choose Your Second Sandwich Mods'' x m))"
    by simp
  from removeRequested_undoes [of "[]" undefined "str_includes n ''(2pc)''" first second
      "modifiers (cart ! i)", OF _ _ old]
  obtain F where "removeRequested (str_includes n ''(2pc)'') first second (modifiers (cart ! i))
                    = (modifiers (cart ! i), [], F)"
    by auto
  with Some show ?thesis
    by (simp add: removeModifierFromCart_inMemory_def Let_def)
qed

lemma removeModifierFromCart_inMemory_undoes:
  assumes tgt: "targetCartItemIndex cart n = Some i"
    and invar: "lineTotalInvariant (cart ! i)"
    and olds: "\<forall>m\<in>set (modifiers (cart ! i)).
                 (\<forall>x\<in>set first.
                     \<not> removalMatch (str_includes n ''(2pc)'')
                         ''Choose Your First Sandwich Mods'' x m)
                 \<and> (str_includes n ''(2pc)'' \<longrightarrow>
                      (\<forall>x\<in>set second.
                          \<not> removalMatch (str_includes n ''(2pc)'')
                              ''Choose Your Second Sandwich Mods'' x m))"
    and added: "A \<noteq> []"
      "set A \<subseteq> set (modifiersToApply mi (str_includes n ''(2pc)'') first second)"
      "distinct A"
  shows "\<exists>ok. removeModifierFromCart_inMemory n first second
                (cart[i := (cart ! i)\<lparr>modifiers := modifiers (cart ! i) @ A, lineTotal := t\<rparr>])
              = Inr (cart, ok)"
proof -
  let ?item1 = "(cart ! i)\<lparr>modifiers := modifiers (cart ! i) @ A, lineTotal := t\<rparr>"
  let ?cart1 = "cart[i := ?item1]"
  have il: "i < length cart"
    using tgt by (simp add: targetCartItemIndex_Some)
  have t1: "targetCartItemIndex ?cart1 n = Some i"
    using tgt il by (simp add: targetCartItemIndex_update hasName_def)
  have ne: "?cart1 \<noteq> []"
    using il by auto
  from removeRequested_undoes [OF added(2,3) olds]
  obtain R F where
    r: "removeRequested (str_includes n ''(2pc)'') first second (modifiers (cart ! i) @ A)
          = (modifiers (cart ! i), R, F)"
    and len: "length R = length A"
    by blast
  have R: "R \<noteq> []"
    using len added(1) by auto
  have restored: "?item1\<lparr>modifiers := modifiers (cart ! i),
                lineTotal := (unitPrice ?item1 + modifierTotal (modifiers (cart ! i)))
                             * of_int (quantity ?item1)\<rparr> = cart ! i"
    using invar by (simp add: lineTotalInvariant_def modifierTotal_sum_list)
  show ?thesis
    using t1 ne il r R added(1) restored
    by (simp add: removeModifierFromCart_inMemory_def Let_def)
qed

section \<open>Claims\<close>

subsection \<open>C1: the line-total invariant\<close>

text \<open>
  The other mutations keep the invariant: the candidate line of \<^verbatim>\<open>addToCart\<close>, its merge
  into an existing line, and the line rewritten by \<^verbatim>\<open>addModifierToCart\<close> and
  \<^verbatim>\<open>removeModifierFromCart\<close> all carry the total the invariant asks for.
\<close>

lemma buildCartItem_invariant: "lineTotalInvariant (buildCartItem mi n q instr f1 f2)"
  by (simp add: buildCartItem_def lineTotalInvariant_def Let_def split: option.splits)

lemma mergeOrAppend_invariant:
  assumes "\<forall>x\<in>set cart. lineTotalInvariant x" and "lineTotalInvariant c"
  shows "\<forall>x\<in>set (mergeOrAppend cart c q). lineTotalInvariant x"
proof (cases "findIndex (sameConfiguration c) cart")
  case None
  with assms show ?thesis by (simp add: mergeOrAppend_def)
next
  case (Some i)
  have "lineTotalInvariant ((cart ! i)\<lparr>quantity := quantity (cart ! i) + q,
          lineTotal := (unitPrice (cart ! i) + modifierTotal (modifiers (cart ! i)))
                       * of_int (quantity (cart ! i) + q)\<rparr>)"
    by (simp add: lineTotalInvariant_def modifierTotal_sum_list)
  with assms(1) Some show ?thesis
    by (auto simp: mergeOrAppend_def Let_def dest!: set_update_subset_insert [THEN subsetD])
qed

lemma addModifierToCart_inMemory_invariant:
  assumes "addModifierToCart_inMemory n toApply failed k cart = Inr (newCart, ok)"
    and "\<forall>x\<in>set cart. lineTotalInvariant x"
  shows "\<forall>x\<in>set newCart. lineTotalInvariant x"
proof -
  from addModifierToCart_inMemory_added [OF assms(1)]
  obtain i A where nc: "newCart = cart[i := (cart ! i)\<lparr>modifiers := modifiers (cart ! i) @ A,
           lineTotal := (unitPrice (cart ! i) + modifierTotal (modifiers (cart ! i) @ A))
                        * of_int (quantity (cart ! i))\<rparr>]"
    by blast
  have "lineTotalInvariant ((cart ! i)\<lparr>modifiers := modifiers (cart ! i) @ A,
           lineTotal := (unitPrice (cart ! i) + modifierTotal (modifiers (cart ! i) @ A))
                        * of_int (quantity (cart ! i))\<rparr>)"
    by (simp add: lineTotalInvariant_def modifierTotal_sum_list)
  with assms(2) show ?thesis
    unfolding nc by (auto dest!: set_update_subset_insert [THEN subsetD])
qed

lemma removeModifierFromCart_inMemory_invariant:
  assumes "removeModifierFromCart_inMemory n first second cart = Inr (newCart, ok)"
    and "\<forall>x\<in>set cart. lineTotalInvariant x"
  shows "\<forall>x\<in>set newCart. lineTotalInvariant x"
proof -
  from assms(1) obtain i mods where
    nc: "newCart = cart[i := (cart ! i)\<lparr>modifiers := mods,
           lineTotal := (unitPrice (cart ! i) + modifierTotal mods)
                        * of_int (quantity (cart ! i))\<rparr>]"
    by (auto simp: removeModifierFromCart_inMemory_def Let_def
        split: if_splits option.splits prod.splits)
  have "lineTotalInvariant ((cart ! i)\<lparr>modifiers := mods,
           lineTotal := (unitPrice (cart ! i) + modifierTotal mods)
                        * of_int (quantity (cart ! i))\<rparr>)"
    by (simp add: lineTotalInvariant_def modifierTotal_sum_list)
  with assms(2) show ?thesis
    unfolding nc by (auto dest!: set_update_subset_insert [THEN subsetD])
qed

text \<open>
  The cart \<open>[cheese_line]\<close> is what \<^verbatim>\<open>addToCart\<close> of two sandwiches followed by
  \<^verbatim>\<open>addModifierToCart\<close> of the cheese produces.
\<close>

lemma cheese_line_reachable:
  "snd (addModifierToCart ex_env
          (snd (addToCart ex_env ex_store
                  (ex_request\<lparr>argItemName := Some ''Spicy Sandwich (2pc)'',
                               argQuantity := Some 2\<rparr>)))
          (ex_request\<lparr>argItemName := Some ''Spicy Sandwich (2pc)'',
                       firstSandwichMods := [''Add cheese 1'']\<rparr>))
   = store_with [cheese_line]"
  by (simp add: handler_defs resolver_defs ex_defs isInteger_iff mergeOrAppend_def response_defs
      cheese_line_def buildCartItem_def spicy_sandwich_def modifierTotal_def)

text \<open>
  C1, at the input the code gets wrong. The claim: after every mutation, and in
  particular after a \<^verbatim>\<open>removeFromCart\<close> that only decrements the quantity of a line with
  modifiers, the line total is (unit price + modifier prices) * quantity. On the cart
  of two sandwiches at 8.99 with a 1.00 cheese modifier (line total 19.98, as the
  invariant asks), removing one leaves a line of quantity 1 whose total is 8.99, not
  9.99: line 560 recomputes the total as \<^verbatim>\<open>unitPrice * quantity\<close> and drops the modifiers.
\<close>

theorem removeFromCart_decrement_ignores_modifiers:
  "lineTotalInvariant cheese_line
   \<and> getSessionCart (snd (removeFromCart (store_with [cheese_line])
        (ex_request\<lparr>argItemName := Some ''Spicy Sandwich (2pc)'',
                     quantityToRemove := Some 1\<rparr>))) ''c1''
     = [cheese_line\<lparr>quantity := 1, lineTotal := 899 / 100\<rparr>]
   \<and> \<not> lineTotalInvariant (cheese_line\<lparr>quantity := 1, lineTotal := 899 / 100\<rparr>)"
  by (simp add: handler_defs ex_defs nameMatches_def response_defs cheese_line_def
      buildCartItem_def spicy_sandwich_def lineTotalInvariant_def)

subsection \<open>C2: merging of equal configurations\<close>

text \<open>
  Counterexample to C2 as stated: the session already holds one line of fries of
  quantity 1 (the cart that one \<^verbatim>\<open>addToCart\<close> of one portion produces). Two further calls
  for fries with quantities 2 and 3 both succeed and merge into that line, which ends
  with quantity 6, not 2 + 3: the quantities are added to what the line held before.
\<close>

theorem addToCart_twice_adds_to_existing_line:
  "snd (addToCart ex_env ex_store
          (ex_request\<lparr>argItemName := Some ''Fries'', argQuantity := Some 1\<rparr>))
     = store_with [fries_line 1]
   \<and> statusCode (fst (addToCart ex_env (store_with [fries_line 1])
        (ex_request\<lparr>argItemName := Some ''Fries'', argQuantity := Some 2\<rparr>))) = 200
   \<and> statusCode (fst (addToCart ex_env
        (snd (addToCart ex_env (store_with [fries_line 1])
           (ex_request\<lparr>argItemName := Some ''Fries'', argQuantity := Some 2\<rparr>)))
        (ex_request\<lparr>argItemName := Some ''Fries'', argQuantity := Some 3\<rparr>))) = 200
   \<and> getSessionCart (snd (addToCart ex_env
        (snd (addToCart ex_env (store_with [fries_line 1])
           (ex_request\<lparr>argItemName := Some ''Fries'', argQuantity := Some 2\<rparr>)))
        (ex_request\<lparr>argItemName := Some ''Fries'', argQuantity := Some 3\<rparr>))) ''c1''
     = [fries_line 6]
   \<and> quantity (fries_line 6) \<noteq> 2 + 3"
  by (simp add: handler_defs ex_defs isInteger_iff mergeOrAppend_def sameConfiguration_def
      response_defs fries_line_def buildCartItem_def side_dish_def modifierTotal_def)

text \<open>
  A cart can also hold two lines of one configuration, since \<^verbatim>\<open>removeModifierFromCart\<close>
  does not merge: two plain sandwiches, then two mild ones on a line of their own, then
  the mild modifier removed from that line. Two further calls for a plain sandwich then
  merge into the first of the two lines and leave the second as it is, so the cart
  keeps two lines of the configuration.
\<close>

lemma two_plain_lines_reachable:
  "snd (removeModifierFromCart
     (snd (addToCart ex_env
        (snd (addToCart ex_env ex_store
           (ex_request\<lparr>argItemName := Some ''Spicy Sandwich (2pc)'', argQuantity := Some 2\<rparr>)))
        (ex_request\<lparr>argItemName := Some ''Spicy Sandwich (2pc)'', argQuantity := Some 2,
                     firstItemSpiceLevel := Some ''Mild''\<rparr>)))
     (ex_request\<lparr>argItemName := Some ''Spicy Sandwich (2pc)'', firstSandwichMods := [''Mild'']\<rparr>))
   = store_with [plain_line, plain_line]"
  by (simp add: handler_defs resolver_defs spice_defs ex_defs isInteger_iff mergeOrAppend_def
      sameConfiguration_def response_defs plain_line_def buildCartItem_def spicy_sandwich_def
      modifierTotal_def)

lemma two_plain_lines_stay_two:
  "getSessionCart (snd (addToCart ex_env
        (snd (addToCart ex_env (store_with [plain_line, plain_line])
           (ex_request\<lparr>argItemName := Some ''Spicy Sandwich (2pc)'', argQuantity := Some 1\<rparr>)))
        (ex_request\<lparr>argItemName := Some ''Spicy Sandwich (2pc)'', argQuantity := Some 1\<rparr>))) ''c1''
     = [plain_line\<lparr>quantity := 4, lineTotal := 3596 / 100\<rparr>, plain_line]
   \<and> mergeable plain_line (plain_line\<lparr>quantity := 4, lineTotal := 3596 / 100\<rparr>)"
  by (simp add: handler_defs ex_defs isInteger_iff mergeOrAppend_def sameConfiguration_def
      response_defs plain_line_def buildCartItem_def spicy_sandwich_def modifierTotal_def
      mergeable_def)

text \<open>
  C2, amended. Two \<^verbatim>\<open>addToCart\<close> calls of one session for the same menu item, with the same
  special instructions and the same multiset of applied option ids (in any order), with
  quantities \<open>q1\<close> and \<open>q2\<close>, on a working store: both succeed; the number of lines of
  that configuration does not grow, except from none to exactly one; the quantities of
  the lines of that configuration grow by \<open>q1 + q2\<close> in total; and when the cart held no
  line of that configuration before the first call, it holds exactly one afterwards,
  of quantity \<open>q1 + q2\<close>. The lines of a configuration are those \<open>mergeable\<close> with the
  candidate of the first call, in the words of the data model; the handler's own test is
  \<open>sameConfiguration\<close>, and the two agree (\<open>sameConfiguration_iff_mergeable\<close>).
\<close>

theorem addToCart_twice_merges:
  fixes q1 q2 :: int and mi :: menu_item and n :: string and req1 req2 :: request
    and e :: env and s :: store
  defines "c1 \<equiv> buildCartItem mi n q1 (requestedInstructions req1)
                   (firstItemSpiceLevel req1) (secondItemSpiceLevel req1)"
    and "c2 \<equiv> buildCartItem mi n q2 (requestedInstructions req2)
                   (firstItemSpiceLevel req2) (secondItemSpiceLevel req2)"
    and "s1 \<equiv> snd (addToCart e s req1)"
  defines "s2 \<equiv> snd (addToCart e s1 req2)"
  assumes store: "get_fails s = False" "put_error s = None"
    and menu: "location_result e = Inr loc" "menu_result e = Inr m" "map_of m n = Some mi"
    and session: "call_id req1 = Some c" "call_id req2 = Some c" "c \<noteq> []"
    and item: "argItemName req1 = Some n" "argItemName req2 = Some n" "n \<noteq> []"
    and quantities: "argQuantity req1 = Some (of_int q1)" "0 < q1"
      "argQuantity req2 = Some (of_int q2)" "0 < q2"
    and instructions: "requestedInstructions req1 = requestedInstructions req2"
    and options: "mset (map optionId (modifiers c1)) = mset (map optionId (modifiers c2))"
  shows "statusCode (fst (addToCart e s req1)) = 200
     \<and> statusCode (fst (addToCart e s1 req2)) = 200
     \<and> length (filter (mergeable c1) (getSessionCart s2 c))
         = max 1 (length (filter (mergeable c1) (getSessionCart s c)))
     \<and> sum_list (map quantity (filter (mergeable c1) (getSessionCart s2 c)))
         = sum_list (map quantity (filter (mergeable c1) (getSessionCart s c))) + q1 + q2
     \<and> ((\<forall>item \<in> set (getSessionCart s c). \<not> mergeable c1 item)
          \<longrightarrow> (\<exists>line. filter (mergeable c1) (getSessionCart s2 c) = [line]
                       \<and> quantity line = q1 + q2))"
proof -
  let ?cart0 = "getSessionCart s c"
  let ?cart1 = "mergeOrAppend ?cart0 c1 q1"
  let ?cart2 = "mergeOrAppend ?cart1 c2 q2"
  have m12: "mergeable c1 c2"
    using instructions options by (simp add: mergeable_def c1_def c2_def)
  note a1 = addToCart_accepted [OF store(2) menu session(1,3) item(1,3) quantities(1,2)]
  have s1: "s1 = s\<lparr>cart_table := (cart_table s)(c \<mapsto> ?cart1)\<rparr>"
    unfolding s1_def c1_def by (rule a1(2))
  have s1_store: "get_fails s1 = False" "put_error s1 = None"
    using store by (simp_all add: s1)
  have g1: "getSessionCart s1 c = ?cart1"
    unfolding s1 by (rule getSessionCart_updated [OF store(1) session(3)])
  note a2 = addToCart_accepted [OF s1_store(2) menu session(2,3) item(2,3) quantities(3,4)]
  have s2: "s2 = s1\<lparr>cart_table := (cart_table s1)(c \<mapsto> ?cart2)\<rparr>"
    unfolding s2_def c2_def g1 [symmetric] by (rule a2(2))
  have g2: "getSessionCart s2 c = ?cart2"
    unfolding s2 by (rule getSessionCart_updated [OF s1_store(1) session(3)])
  have count: "length (filter (mergeable c1) ?cart2) = max 1 (length (filter (mergeable c1) ?cart0))"
    by (simp add: mergeOrAppend_count [OF m12] mergeOrAppend_count [OF mergeable_refl])
  have total: "sum_list (map quantity (filter (mergeable c1) ?cart2))
                 = sum_list (map quantity (filter (mergeable c1) ?cart0)) + q1 + q2"
  proof -
    have "sum_list (map quantity (filter (mergeable c1) ?cart1))
            = sum_list (map quantity (filter (mergeable c1) ?cart0)) + q1"
      by (rule mergeOrAppend_quantity [OF mergeable_refl]) (simp add: c1_def)
    moreover have "sum_list (map quantity (filter (mergeable c1) ?cart2))
            = sum_list (map quantity (filter (mergeable c1) ?cart1)) + q2"
      by (rule mergeOrAppend_quantity [OF m12]) (simp add: c2_def)
    ultimately show ?thesis by simp
  qed
  have fresh: "\<exists>line. filter (mergeable c1) ?cart2 = [line] \<and> quantity line = q1 + q2"
    if "\<forall>item \<in> set ?cart0. \<not> mergeable c1 item"
  proof -
    from that have e: "filter (mergeable c1) ?cart0 = []"
      by (simp add: filter_empty_conv)
    with count have "length (filter (mergeable c1) ?cart2) = 1" by simp
    then obtain line where l: "filter (mergeable c1) ?cart2 = [line]"
      by (metis One_nat_def length_0_conv length_Suc_conv)
    with total e show ?thesis by simp
  qed
  show ?thesis
    using a1(1) a2(1) count total fresh unfolding g2 s1_def [symmetric] by blast
qed

text \<open>
  Witness for C2: the first call orders mild and hot, the second hot and mild; the two
  candidates apply the same option ids in a different order, and the cart ends with one
  line of quantity 3.
\<close>

theorem addToCart_twice_merges_witness:
  "statusCode (fst (addToCart twin_env ex_store (twin_request 1 ''mild'' ''hot''))) = 200
   \<and> modifiers (buildCartItem twin_sandwich ''Twin (2pc)'' 1 [] (Some ''mild'') (Some ''hot''))
       \<noteq> modifiers (buildCartItem twin_sandwich ''Twin (2pc)'' 2 [] (Some ''Hot'') (Some ''Mild''))
   \<and> (\<exists>line. filter (mergeable
                  (buildCartItem twin_sandwich ''Twin (2pc)'' 1 [] (Some ''mild'') (Some ''hot'')))
                (getSessionCart
                   (snd (addToCart twin_env
                      (snd (addToCart twin_env ex_store (twin_request 1 ''mild'' ''hot'')))
                      (twin_request 2 ''Hot'' ''Mild''))) ''c1'') = [line]
             \<and> quantity line = 1 + 2)"
proof -
  let ?r1 = "twin_request 1 ''mild'' ''hot''" and ?r2 = "twin_request 2 ''Hot'' ''Mild''"
  have store: "get_fails ex_store = False" "put_error ex_store = None"
    by (simp_all add: ex_defs)
  have menu: "location_result twin_env = Inr \<lparr>locationId = ''L1'', restaurantName = ''Big Bird''\<rparr>"
    "menu_result twin_env = Inr [(''Twin (2pc)'', twin_sandwich)]"
    "map_of [(''Twin (2pc)'', twin_sandwich)] ''Twin (2pc)'' = Some twin_sandwich"
    by (simp_all add: twin_env_def)
  have session: "call_id ?r1 = Some ''c1''" "call_id ?r2 = Some ''c1''" "''c1'' \<noteq> []"
    by (simp_all add: twin_request_def ex_defs)
  have item: "argItemName ?r1 = Some ''Twin (2pc)''" "argItemName ?r2 = Some ''Twin (2pc)''"
    "''Twin (2pc)'' \<noteq> []"
    by (simp_all add: twin_request_def)
  have quantities: "argQuantity ?r1 = Some (of_int 1)" "(0::int) < 1"
    "argQuantity ?r2 = Some (of_int 2)" "(0::int) < 2"
    by (simp_all add: twin_request_def)
  have instr: "requestedInstructions ?r1 = []" "requestedInstructions ?r2 = []"
    by (simp_all add: requestedInstructions_def twin_request_def ex_defs)
  have spice: "firstItemSpiceLevel ?r1 = Some ''mild''" "secondItemSpiceLevel ?r1 = Some ''hot''"
    "firstItemSpiceLevel ?r2 = Some ''Hot''" "secondItemSpiceLevel ?r2 = Some ''Mild''"
    by (simp_all add: twin_request_def)
  have m1: "map optionId (modifiers (buildCartItem twin_sandwich ''Twin (2pc)'' 1 []
                (Some ''mild'') (Some ''hot''))) = [''MILD'', ''HOT'']"
    by (simp add: spice_defs twin_sandwich_def)
  have m2: "map optionId (modifiers (buildCartItem twin_sandwich ''Twin (2pc)'' 2 []
                (Some ''Hot'') (Some ''Mild''))) = [''HOT'', ''MILD'']"
    by (simp add: spice_defs twin_sandwich_def)
  have differ: "modifiers (buildCartItem twin_sandwich ''Twin (2pc)'' 1 [] (Some ''mild'') (Some ''hot''))
       \<noteq> modifiers (buildCartItem twin_sandwich ''Twin (2pc)'' 2 [] (Some ''Hot'') (Some ''Mild''))"
  proof
    assume "modifiers (buildCartItem twin_sandwich ''Twin (2pc)'' 1 [] (Some ''mild'') (Some ''hot''))
       = modifiers (buildCartItem twin_sandwich ''Twin (2pc)'' 2 [] (Some ''Hot'') (Some ''Mild''))"
    then have "map optionId (modifiers (buildCartItem twin_sandwich ''Twin (2pc)'' 1 []
                (Some ''mild'') (Some ''hot'')))
       = map optionId (modifiers (buildCartItem twin_sandwich ''Twin (2pc)'' 2 []
                (Some ''Hot'') (Some ''Mild'')))"
      by (rule arg_cong)
    then show False
      unfolding m1 m2 by simp
  qed
  have options: "mset (map optionId (modifiers (buildCartItem twin_sandwich ''Twin (2pc)'' 1
                    (requestedInstructions ?r1) (firstItemSpiceLevel ?r1)
                    (secondItemSpiceLevel ?r1))))
               = mset (map optionId (modifiers (buildCartItem twin_sandwich ''Twin (2pc)'' 2
                    (requestedInstructions ?r2) (firstItemSpiceLevel ?r2)
                    (secondItemSpiceLevel ?r2))))"
    unfolding instr spice m1 m2 by simp
  have empty: "getSessionCart ex_store ''c1'' = []"
    by (simp add: getSessionCart_def ex_defs)
  have same: "requestedInstructions ?r1 = requestedInstructions ?r2"
    unfolding instr ..
  note t = addToCart_twice_merges [OF store menu session item quantities same options,
      unfolded instr spice empty]
  have fresh: "\<forall>item \<in> set []. \<not> mergeable
      (buildCartItem twin_sandwich ''Twin (2pc)'' 1 [] (Some ''mild'') (Some ''hot'')) item"
    by simp
  note merged = t [THEN conjunct2, THEN conjunct2, THEN conjunct2, THEN conjunct2, THEN mp,
      OF fresh]
  show ?thesis
    by (intro conjI) (fact t [THEN conjunct1], fact differ, fact merged)
qed

subsection \<open>C3: no write on an error path\<close>

text \<open>
  C3. Whenever a cart operation answers with an error (any status other than 200), the
  store after the call is the store before it; the two read-only operations never
  change the store.
\<close>

theorem no_write_on_error:
  "(statusCode (fst (addToCart e s req)) \<noteq> 200 \<longrightarrow> snd (addToCart e s req) = s)
   \<and> (statusCode (fst (removeFromCart s req)) \<noteq> 200 \<longrightarrow> snd (removeFromCart s req) = s)
   \<and> (statusCode (fst (addModifierToCart e s req)) \<noteq> 200
        \<longrightarrow> snd (addModifierToCart e s req) = s)
   \<and> (statusCode (fst (removeModifierFromCart s req)) \<noteq> 200
        \<longrightarrow> snd (removeModifierFromCart s req) = s)
   \<and> snd (getCartSummary s req) = s
   \<and> snd (upsell s req) = s"
proof (intro conjI impI)
  assume a: "statusCode (fst (addToCart e s req)) \<noteq> 200"
  show "snd (addToCart e s req) = s"
  proof (cases rule: addToCart_cases [of e req])
    case rejected
    then show ?thesis by simp
  next
    case (reached loc locationMenu menuItem)
    show ?thesis
      using a unfolding reached(8)
      by (rule persist_error_keeps_store) (rule addToCart_inMemory_status(2))
  qed
next
  assume a: "statusCode (fst (removeFromCart s req)) \<noteq> 200"
  show "snd (removeFromCart s req) = s"
  proof (cases rule: removeFromCart_cases [of req])
    case rejected
    then show ?thesis by simp
  next
    case reached
    show ?thesis
      using a unfolding reached(3)
      by (rule persist_error_keeps_store) (rule removeFromCart_inMemory_status(2))
  qed
next
  assume a: "statusCode (fst (addModifierToCart e s req)) \<noteq> 200"
  show "snd (addModifierToCart e s req) = s"
  proof (cases rule: addModifierToCart_cases [of e req])
    case rejected
    then show ?thesis by simp
  next
    case (reached locationMenu menuItem)
    show ?thesis
      using a unfolding reached(7)
      by (rule persist_error_keeps_store) (rule addModifierToCart_inMemory_status(2))
  qed
next
  assume a: "statusCode (fst (removeModifierFromCart s req)) \<noteq> 200"
  show "snd (removeModifierFromCart s req) = s"
  proof (cases rule: removeModifierFromCart_cases [of req])
    case rejected
    then show ?thesis by simp
  next
    case reached
    show ?thesis
      using a unfolding reached(4)
      by (rule persist_error_keeps_store) (rule removeModifierFromCart_inMemory_status(2))
  qed
next
  show "snd (getCartSummary s req) = s"
    by (simp add: getCartSummary_def Let_def)
next
  show "snd (upsell s req) = s"
    by (simp add: upsell_def)
qed

text \<open>
  Witness for C3: a request without an item name is rejected by every handler, and
  adding a modifier to an item that is not in the cart answers 404; the store is
  unchanged in each case.
\<close>

theorem no_write_on_error_witness:
  "statusCode (fst (addToCart ex_env ex_store ex_request)) \<noteq> 200
   \<and> snd (addToCart ex_env ex_store ex_request) = ex_store
   \<and> statusCode (fst (removeFromCart ex_store ex_request)) \<noteq> 200
   \<and> snd (removeFromCart ex_store ex_request) = ex_store
   \<and> statusCode (fst (removeModifierFromCart ex_store ex_request)) \<noteq> 200
   \<and> snd (removeModifierFromCart ex_store ex_request) = ex_store
   \<and> statusCode (fst (addModifierToCart ex_env (store_with [fries_line 1])
         (ex_request\<lparr>argItemName := Some ''Spicy Sandwich (2pc)'',
                      firstSandwichMods := [''Mild'']\<rparr>))) = 404
   \<and> snd (addModifierToCart ex_env (store_with [fries_line 1])
         (ex_request\<lparr>argItemName := Some ''Spicy Sandwich (2pc)'',
                      firstSandwichMods := [''Mild'']\<rparr>)) = store_with [fries_line 1]"
proof -
  have 1: "statusCode (fst (addToCart ex_env ex_store ex_request)) = 400"
    by (simp add: addToCart_def ex_defs truthy_def Let_def)
  have 2: "statusCode (fst (removeFromCart ex_store ex_request)) = 400"
    by (simp add: removeFromCart_def ex_defs truthy_def Let_def)
  have 3: "statusCode (fst (removeModifierFromCart ex_store ex_request)) = 400"
    by (simp add: removeModifierFromCart_def ex_defs truthy_def Let_def)
  have 4: "statusCode (fst (addModifierToCart ex_env (store_with [fries_line 1])
         (ex_request\<lparr>argItemName := Some ''Spicy Sandwich (2pc)'',
                      firstSandwichMods := [''Mild'']\<rparr>))) = 404"
    by (simp add: handler_defs resolver_defs ex_defs spicy_sandwich_def fries_line_def
        buildCartItem_def)
  show ?thesis
    using no_write_on_error [of ex_env ex_store ex_request]
      no_write_on_error [of ex_env "store_with [fries_line 1]"
        "ex_request\<lparr>argItemName := Some ''Spicy Sandwich (2pc)'', firstSandwichMods := [''Mild'']\<rparr>"]
      1 2 3 4
    by simp
qed

subsection \<open>C4: validation of addToCart\<close>

text \<open>
  The rest of the claim holds: a negative or fractional quantity is rejected with 400,
  an item name that is not in the menu with 404, and the store is untouched.
\<close>

lemma addToCart_rejects_bad_quantity:
  assumes "truthy (call_id req)" and "truthy (argItemName req)"
    and "argQuantity req = Some q" and "q < 0 \<or> q \<notin> \<int>"
  shows "addToCart e s req
           = (createErrorResponse 400 ''Quantity must be a positive integer'' [], s)"
  using assms by (auto simp: addToCart_def requestedQuantity_def isInteger_iff Let_def)

lemma addToCart_unknown_item:
  assumes "truthy (call_id req)" and "truthy (argItemName req)"
    and "0 < requestedQuantity req" and "requestedQuantity req \<in> \<int>"
    and "location_result e = Inr loc" and "menu_result e = Inr m"
    and "map_of m (the (argItemName req)) = None"
  shows "statusCode (fst (addToCart e s req)) = 404" and "snd (addToCart e s req) = s"
  using assms by (simp_all add: addToCart_def isInteger_iff Let_def not_le)

text \<open>
  C4, at the input the code gets wrong. A request for quantity 0 is not rejected: the
  default \<^verbatim>\<open>quantity || 1\<close> replaces the 0 by 1 before the check of a positive integer
  runs, so the handler answers 200 and stores one line of quantity 1.
\<close>

theorem addToCart_quantity_zero_adds_one:
  "statusCode (fst (addToCart ex_env ex_store
      (ex_request\<lparr>argItemName := Some ''Fries'', argQuantity := Some 0\<rparr>))) = 200
   \<and> getSessionCart (snd (addToCart ex_env ex_store
        (ex_request\<lparr>argItemName := Some ''Fries'', argQuantity := Some 0\<rparr>))) ''c1''
     = [fries_line 1]"
  by (simp add: handler_defs ex_defs isInteger_iff mergeOrAppend_def response_defs
      fries_line_def)

subsection \<open>C5: summary of an empty cart\<close>

text \<open>
  Counterexample to C5 as stated: on the empty cart the handler's message is not
  \<^verbatim>\<open>Your cart is empty.\<close> with the full stop.
\<close>

theorem getCartSummary_empty_no_period:
  "body (fst (getCartSummary ex_store ex_request))
     \<noteq> [(''message'', JString ''Your cart is empty.'')]"
  by (simp add: getCartSummary_def ex_defs getSessionCart_def truthy_def response_defs)

text \<open>
  C5, amended. For a session whose cart reads as the empty list, \<^verbatim>\<open>getCartSummary\<close>
  answers 200 with the single field \<open>message\<close> equal to \<^verbatim>\<open>Your cart is empty\<close>, without
  a full stop and without any subtotal or item count, and leaves the store as it is.
  The formatter \<^verbatim>\<open>createSpeechFriendlySummary\<close> returns \<^verbatim>\<open>Your cart is empty.\<close> on an empty
  cart, but the handler returns before calling it.
\<close>

theorem getCartSummary_empty:
  assumes "truthy (call_id req)" and "getSessionCart s (the (call_id req)) = []"
  shows "getCartSummary s req
           = (\<lparr>statusCode = 200, body = [(''message'', JString ''Your cart is empty'')]\<rparr>, s)
     \<and> createSpeechFriendlySummary [] subtotal = ''Your cart is empty.''"
  using assms by (simp add: getCartSummary_def createSpeechFriendlySummary_def response_defs)

text \<open>Witness for C5: the session of the example store has no cart.\<close>

theorem getCartSummary_empty_witness:
  "truthy (call_id ex_request) \<and> getSessionCart ex_store (the (call_id ex_request)) = []
   \<and> getCartSummary ex_store ex_request
       = (\<lparr>statusCode = 200, body = [(''message'', JString ''Your cart is empty'')]\<rparr>, ex_store)"
  using getCartSummary_empty [of ex_request ex_store 0]
  by (simp add: ex_defs truthy_def getSessionCart_def)

subsection \<open>C6: up-sell offer\<close>

text \<open>
  The offer is empty exactly when fries, mac and slaw are all in the cart, whether or not
  the dessert is.
\<close>

lemma upsellMessage_empty_iff:
  "upsellMessage cart = [] \<longleftrightarrow>
     (let names = map (\<lambda>item. toLowerCase (if item_name item \<noteq> [] then item_name item
                                             else name item)) cart
      in list_ex (\<lambda>item. str_includes item ''fries'') names
       \<and> list_ex (\<lambda>item. str_includes item ''mac'') names
       \<and> list_ex (\<lambda>item. str_includes item ''slaw'') names)"
  by (simp add: upsellMessage_def Let_def)

text \<open>
  C6, at the input the code gets wrong. The claim: the offer is empty only if all four
  categories are in the cart, and when only the dessert is absent the offer mentions
  it. With fries, mac and cheese and slaw in the cart and no toffee cake, the list
  \<open>parts\<close> is empty and the handler returns the empty message: the dessert part it has
  just built is dropped.
\<close>

theorem upsell_silent_when_only_dessert_missing:
  "fst (upsell (store_with [fries_line 1,
                  buildCartItem (side_dish ''V3'') ''Mac & Cheese'' 1 [] None None,
                  buildCartItem (side_dish ''V4'') ''Slaw'' 1 [] None None]) ex_request)
   = createSuccessResponse [(''message'', JString [])]"
  by (simp add: upsell_def upsellMessage_def ex_defs getSessionCart_def fries_line_def
      buildCartItem_def truthy_def Let_def toLowerCase_def toLowerCase_char_def)

subsection \<open>C7: failures of the cart store\<close>

text \<open>
  Counterexample to C7 as stated: when the read of the cart table fails, the summary of
  a session that holds a line answers 200 with the message of an empty cart, not 500.
\<close>

theorem failing_read_is_empty_cart:
  "fst (getCartSummary ((store_with [fries_line 1])\<lparr>get_fails := True\<rparr>) ex_request)
     = createSuccessResponse [(''message'', JString ''Your cart is empty'')]
   \<and> statusCode (fst (getCartSummary ((store_with [fries_line 1])\<lparr>get_fails := True\<rparr>) ex_request))
       \<noteq> 500"
  by (simp add: getCartSummary_def ex_defs truthy_def getSessionCart_def response_defs)

text \<open>
  C7, amended. A failure of the write is surfaced: a cart-changing operation that would
  answer 200 with a working table answers 500 with the error's message, and leaves the
  store as it is, when the table's \<^verbatim>\<open>put\<close> rejects. A failure of the read is not
  surfaced: \<^verbatim>\<open>getSessionCart\<close> catches it and returns the empty cart, and every operation
  answers as it would for a session with no stored cart.
\<close>

theorem store_failures:
  "(put_error s = Some msg \<longrightarrow>
      (statusCode (fst (addToCart e (s\<lparr>put_error := None\<rparr>) req)) = 200
         \<longrightarrow> addToCart e s req = (internal_error msg, s))
    \<and> (statusCode (fst (removeFromCart (s\<lparr>put_error := None\<rparr>) req)) = 200
         \<longrightarrow> removeFromCart s req = (internal_error msg, s))
    \<and> (statusCode (fst (addModifierToCart e (s\<lparr>put_error := None\<rparr>) req)) = 200
         \<longrightarrow> addModifierToCart e s req = (internal_error msg, s))
    \<and> (statusCode (fst (removeModifierFromCart (s\<lparr>put_error := None\<rparr>) req)) = 200
         \<longrightarrow> removeModifierFromCart s req = (internal_error msg, s)))
   \<and> (get_fails t \<longrightarrow>
        getSessionCart t c = []
      \<and> fst (addToCart e t req)
          = fst (addToCart e (t\<lparr>cart_table := Map.empty, get_fails := False\<rparr>) req)
      \<and> fst (removeFromCart t req)
          = fst (removeFromCart (t\<lparr>cart_table := Map.empty, get_fails := False\<rparr>) req)
      \<and> fst (addModifierToCart e t req)
          = fst (addModifierToCart e (t\<lparr>cart_table := Map.empty, get_fails := False\<rparr>) req)
      \<and> fst (removeModifierFromCart t req)
          = fst (removeModifierFromCart (t\<lparr>cart_table := Map.empty, get_fails := False\<rparr>) req)
      \<and> fst (getCartSummary t req)
          = fst (getCartSummary (t\<lparr>cart_table := Map.empty, get_fails := False\<rparr>) req)
      \<and> fst (upsell t req)
          = fst (upsell (t\<lparr>cart_table := Map.empty, get_fails := False\<rparr>) req))"
proof (intro conjI impI)
  assume p: "put_error s = Some msg"
  {
    assume a: "statusCode (fst (addToCart e (s\<lparr>put_error := None\<rparr>) req)) = 200"
    show "addToCart e s req = (internal_error msg, s)"
    proof (cases rule: addToCart_cases [of e req])
      case rejected
      from rejected(2) [of "s\<lparr>put_error := None\<rparr>"] a show ?thesis by simp
    next
      case (reached loc locationMenu menuItem)
      show ?thesis
        by (rule put_error_surfaces [OF p reached(1) reached(8) _ a])
          (simp add: addToCart_inMemory_status(1))
    qed
  }
  {
    assume a: "statusCode (fst (removeFromCart (s\<lparr>put_error := None\<rparr>) req)) = 200"
    show "removeFromCart s req = (internal_error msg, s)"
    proof (cases rule: removeFromCart_cases [of req])
      case rejected
      from rejected(2) [of "s\<lparr>put_error := None\<rparr>"] a show ?thesis by simp
    next
      case reached
      show ?thesis
        by (rule put_error_surfaces [OF p reached(1) reached(3) _ a])
          (use removeFromCart_inMemory_status(1) in fastforce)
    qed
  }
  {
    assume a: "statusCode (fst (addModifierToCart e (s\<lparr>put_error := None\<rparr>) req)) = 200"
    show "addModifierToCart e s req = (internal_error msg, s)"
    proof (cases rule: addModifierToCart_cases [of e req])
      case rejected
      from rejected(2) [of "s\<lparr>put_error := None\<rparr>"] a show ?thesis by simp
    next
      case (reached locationMenu menuItem)
      show ?thesis
        by (rule put_error_surfaces [OF p reached(1) reached(7) _ a])
          (use addModifierToCart_inMemory_status(1) in fastforce)
    qed
  }
  {
    assume a: "statusCode (fst (removeModifierFromCart (s\<lparr>put_error := None\<rparr>) req)) = 200"
    show "removeModifierFromCart s req = (internal_error msg, s)"
    proof (cases rule: removeModifierFromCart_cases [of req])
      case rejected
      from rejected(2) [of "s\<lparr>put_error := None\<rparr>"] a show ?thesis by simp
    next
      case reached
      show ?thesis
        by (rule put_error_surfaces [OF p reached(1) reached(4) _ a])
          (use removeModifierFromCart_inMemory_status(1) in fastforce)
    qed
  }
next
  assume g: "get_fails t"
  show "getSessionCart t c = []"
    using g by (rule getSessionCart_read_fails)
  show "fst (addToCart e t req)
          = fst (addToCart e (t\<lparr>cart_table := Map.empty, get_fails := False\<rparr>) req)"
  proof (cases rule: addToCart_cases [of e req])
    case rejected
    then show ?thesis by blast
  next
    case (reached loc locationMenu menuItem)
    show ?thesis by (rule read_fails_response [OF g reached(8)])
  qed
  show "fst (removeFromCart t req)
          = fst (removeFromCart (t\<lparr>cart_table := Map.empty, get_fails := False\<rparr>) req)"
  proof (cases rule: removeFromCart_cases [of req])
    case rejected
    then show ?thesis by blast
  next
    case reached
    show ?thesis by (rule read_fails_response [OF g reached(3)])
  qed
  show "fst (addModifierToCart e t req)
          = fst (addModifierToCart e (t\<lparr>cart_table := Map.empty, get_fails := False\<rparr>) req)"
  proof (cases rule: addModifierToCart_cases [of e req])
    case rejected
    then show ?thesis by blast
  next
    case (reached locationMenu menuItem)
    show ?thesis by (rule read_fails_response [OF g reached(7)])
  qed
  show "fst (removeModifierFromCart t req)
          = fst (removeModifierFromCart (t\<lparr>cart_table := Map.empty, get_fails := False\<rparr>) req)"
  proof (cases rule: removeModifierFromCart_cases [of req])
    case rejected
    then show ?thesis by blast
  next
    case reached
    show ?thesis by (rule read_fails_response [OF g reached(4)])
  qed
  show "fst (getCartSummary t req)
          = fst (getCartSummary (t\<lparr>cart_table := Map.empty, get_fails := False\<rparr>) req)"
    using g by (simp add: getCartSummary_def getSessionCart_def Let_def)
  show "fst (upsell t req)
          = fst (upsell (t\<lparr>cart_table := Map.empty, get_fails := False\<rparr>) req)"
    using g by (simp add: upsell_def getSessionCart_def)
qed

text \<open>
  Witness for C7: with a rejecting \<^verbatim>\<open>put\<close>, one request that each of the four handlers
  would accept is answered 500 by each; with a rejecting \<^verbatim>\<open>get\<close>, the summary of a session
  holding a line of fries is the summary of an empty cart.
\<close>

theorem store_failures_witness:
  "put_error ((store_with [cheese_line])\<lparr>put_error := Some ''timeout''\<rparr>) = Some ''timeout''
   \<and> statusCode (fst (addToCart ex_env (store_with [cheese_line]) busy_request)) = 200
   \<and> addToCart ex_env ((store_with [cheese_line])\<lparr>put_error := Some ''timeout''\<rparr>) busy_request
       = (internal_error ''timeout'', (store_with [cheese_line])\<lparr>put_error := Some ''timeout''\<rparr>)
   \<and> statusCode (fst (removeFromCart (store_with [cheese_line]) busy_request)) = 200
   \<and> removeFromCart ((store_with [cheese_line])\<lparr>put_error := Some ''timeout''\<rparr>) busy_request
       = (internal_error ''timeout'', (store_with [cheese_line])\<lparr>put_error := Some ''timeout''\<rparr>)
   \<and> statusCode (fst (addModifierToCart ex_env (store_with [cheese_line]) busy_request)) = 200
   \<and> addModifierToCart ex_env ((store_with [cheese_line])\<lparr>put_error := Some ''timeout''\<rparr>) busy_request
       = (internal_error ''timeout'', (store_with [cheese_line])\<lparr>put_error := Some ''timeout''\<rparr>)
   \<and> statusCode (fst (removeModifierFromCart (store_with [cheese_line]) busy_request)) = 200
   \<and> removeModifierFromCart ((store_with [cheese_line])\<lparr>put_error := Some ''timeout''\<rparr>) busy_request
       = (internal_error ''timeout'', (store_with [cheese_line])\<lparr>put_error := Some ''timeout''\<rparr>)
   \<and> get_fails ((store_with [fries_line 1])\<lparr>get_fails := True\<rparr>)
   \<and> getSessionCart ((store_with [fries_line 1])\<lparr>get_fails := True\<rparr>) ''c1'' = []
   \<and> fst (getCartSummary ((store_with [fries_line 1])\<lparr>get_fails := True\<rparr>) busy_request)
       = fst (getCartSummary ex_store busy_request)"
proof -
  have u: "(store_with [cheese_line])\<lparr>put_error := Some ''timeout'', put_error := None\<rparr>
             = store_with [cheese_line]"
    by (simp add: ex_defs)
  have v: "(store_with [fries_line 1])\<lparr>get_fails := True, cart_table := Map.empty,
              get_fails := False\<rparr> = ex_store"
    by (simp add: ex_defs)
  have 1: "statusCode (fst (addToCart ex_env (store_with [cheese_line]) busy_request)) = 200"
    by (simp add: handler_defs ex_defs busy_request_def isInteger_iff)
  have 2: "statusCode (fst (removeFromCart (store_with [cheese_line]) busy_request)) = 200"
    by (simp add: handler_defs ex_defs busy_request_def cheese_line_def buildCartItem_def
        nameMatches_def)
  have 3: "statusCode (fst (addModifierToCart ex_env (store_with [cheese_line]) busy_request)) = 200"
    by (simp add: handler_defs resolver_defs ex_defs busy_request_def cheese_line_def
        buildCartItem_def spicy_sandwich_def)
  have 4: "statusCode (fst (removeModifierFromCart (store_with [cheese_line]) busy_request)) = 200"
    by (simp add: handler_defs resolver_defs ex_defs busy_request_def cheese_line_def
        buildCartItem_def)
  show ?thesis
    using store_failures [of "(store_with [cheese_line])\<lparr>put_error := Some ''timeout''\<rparr>"
        "''timeout''" ex_env busy_request "(store_with [fries_line 1])\<lparr>get_fails := True\<rparr>" "''c1''"]
      1 2 3 4
    unfolding u v by simp
qed

subsection \<open>C8: adding then removing modifiers\<close>

text \<open>
  Counterexample to C8 as stated: on a line that already carries the cheese modifier,
  adding mild and cheese skips the cheese as a duplicate, and removing mild and cheese
  then removes both. The line ends without modifiers and with a smaller total.
\<close>

theorem add_then_remove_drops_earlier_modifier:
  "getSessionCart (snd (removeModifierFromCart
       (snd (addModifierToCart ex_env (store_with [cheese_line]) busy_request)) busy_request)) ''c1''
     = [cheese_line\<lparr>modifiers := [], lineTotal := 1798 / 100\<rparr>]
   \<and> modifiers cheese_line \<noteq> [] \<and> lineTotal cheese_line \<noteq> 1798 / 100"
  by (simp add: handler_defs resolver_defs ex_defs busy_request_def cheese_line_def
      buildCartItem_def spicy_sandwich_def modifierTotal_def)

text \<open>
  The cart \<open>[pickle_line]\<close> is what \<^verbatim>\<open>addToCart\<close> of one sandwich followed by
  \<^verbatim>\<open>addModifierToCart\<close> of the pickles for the second piece produces.
\<close>

lemma pickle_line_reachable:
  "snd (addModifierToCart pickle_env
          (snd (addToCart pickle_env ex_store
                  (ex_request\<lparr>argItemName := Some ''Pickle Sandwich (2pc)'',
                               argQuantity := Some 1\<rparr>)))
          (ex_request\<lparr>argItemName := Some ''Pickle Sandwich (2pc)'',
                       secondSandwichMods := [''Extra Pickles'']\<rparr>))
   = store_with [pickle_line]"
  by (simp add: handler_defs resolver_defs ex_defs isInteger_iff mergeOrAppend_def response_defs
      pickle_line_def pickle_env_def buildCartItem_def pickle_sandwich_def modifierTotal_def)

text \<open>
  C8, amended. The removal loops look a requested name up among the applied modifiers
  with \<open>removalMatch\<close>: by trimmed name, and for a two-piece item within the category of
  the piece the name was requested for; for any other item the names of the second
  piece are not looked up at all. If the targeted line (the last one with the requested
  name) satisfies the line-total invariant and none of its applied modifiers is matched
  in this way by a requested name of its piece, then \<^verbatim>\<open>addModifierToCart\<close> followed by
  \<^verbatim>\<open>removeModifierFromCart\<close> with the same request leaves the store, hence the line's
  modifier list and line total, exactly as before the first call.
\<close>

theorem add_then_remove_modifiers_restores:
  assumes "\<forall>i. targetCartItemIndex (getSessionCart s (the (call_id req))) (the (argItemName req))
                = Some i
             \<longrightarrow> lineTotalInvariant (getSessionCart s (the (call_id req)) ! i)
               \<and> (\<forall>m \<in> set (modifiers (getSessionCart s (the (call_id req)) ! i)).
                     (\<forall>x \<in> set (firstSandwichMods req).
                         \<not> removalMatch (str_includes (the (argItemName req)) ''(2pc)'')
                             ''Choose Your First Sandwich Mods'' x m)
                     \<and> (str_includes (the (argItemName req)) ''(2pc)'' \<longrightarrow>
                          (\<forall>x \<in> set (secondSandwichMods req).
                              \<not> removalMatch (str_includes (the (argItemName req)) ''(2pc)'')
                                  ''Choose Your Second Sandwich Mods'' x m)))"
  shows "snd (removeModifierFromCart (snd (addModifierToCart e s req)) req) = s"
proof -
  let ?c = "the (call_id req)" and ?n = "the (argItemName req)"
  let ?first = "firstSandwichMods req" and ?second = "secondSandwichMods req"
  let ?cart = "getSessionCart s ?c"
  have "\<exists>err. removeModifierFromCart_inMemory ?n ?first ?second ?cart = Inl err"
    by (rule removeModifierFromCart_inMemory_nothing) (use assms in blast)
  then obtain err0 where
    no_removal: "removeModifierFromCart_inMemory ?n ?first ?second ?cart = Inl err0" ..
  have unchanged: "snd (removeModifierFromCart s req) = s"
  proof (cases rule: removeModifierFromCart_cases [of req])
    case rejected
    then show ?thesis by simp
  next
    case reached
    show ?thesis
      by (simp add: reached(4) no_removal)
  qed
  show ?thesis
  proof (cases rule: addModifierToCart_cases [of e req])
    case rejected
    then show ?thesis
      using unchanged by simp
  next
    case (reached locationMenu menuItem)
    let ?toApply = "modifiersToApply menuItem (str_includes ?n ''(2pc)'') ?first ?second"
    let ?out = "addModifierToCart_inMemory ?n ?toApply
                  (failedToResolve menuItem (str_includes ?n ''(2pc)'') ?first ?second)
                  (length ?first + length ?second) ?cart"
    have add: "addModifierToCart e s req = persist s ?c ?out"
      by (rule reached(7))
    have cne: "?c \<noteq> []"
      by (rule truthy_call_id [OF reached(1)])
    show ?thesis
    proof (cases ?out)
      case (Inl err)
      then show ?thesis
        using unchanged by (simp add: add)
    next
      case (Inr p)
      obtain newCart ok where p: "?out = Inr (newCart, ok)"
        using Inr by (cases p) simp
      show ?thesis
      proof (cases "put_error s")
        case (Some msg)
        then show ?thesis
          using unchanged by (simp add: add p persist_Inr_fails [OF _ cne])
      next
        case None
        let ?s1 = "s\<lparr>cart_table := (cart_table s)(?c \<mapsto> newCart)\<rparr>"
        have s1: "snd (addModifierToCart e s req) = ?s1"
          by (simp add: add p persist_Inr_ok [OF None cne])
        from addModifierToCart_inMemory_added [OF p]
        obtain i A where i: "targetCartItemIndex ?cart ?n = Some i"
          and A: "A \<noteq> []" "set A \<subseteq> set ?toApply" "distinct A"
          and nc: "newCart = ?cart[i := (?cart ! i)\<lparr>modifiers := modifiers (?cart ! i) @ A,
             lineTotal := (unitPrice (?cart ! i) + modifierTotal (modifiers (?cart ! i) @ A))
                          * of_int (quantity (?cart ! i))\<rparr>]"
          by blast
        have "?cart \<noteq> []"
          using i by (auto simp: targetCartItemIndex_Some)
        note store = getSessionCart_nonempty [OF this]
        have g1: "getSessionCart ?s1 ?c = newCart"
          by (rule getSessionCart_updated [OF store(1) cne])
        from assms i have inv: "lineTotalInvariant (?cart ! i)"
          and old: "\<forall>m \<in> set (modifiers (?cart ! i)).
                      (\<forall>x \<in> set ?first.
                          \<not> removalMatch (str_includes ?n ''(2pc)'')
                              ''Choose Your First Sandwich Mods'' x m)
                      \<and> (str_includes ?n ''(2pc)'' \<longrightarrow>
                           (\<forall>x \<in> set ?second.
                               \<not> removalMatch (str_includes ?n ''(2pc)'')
                                   ''Choose Your Second Sandwich Mods'' x m))"
          by blast+
        from removeModifierFromCart_inMemory_undoes [OF i inv old A]
        obtain ok' where
          undo: "removeModifierFromCart_inMemory ?n ?first ?second newCart = Inr (?cart, ok')"
          unfolding nc by blast
        have "removeModifierFromCart ?s1 req
                = persist ?s1 ?c (removeModifierFromCart_inMemory ?n ?first ?second newCart)"
          using removeModifierFromCart_validated [OF reached(1,2,3), of ?s1] g1 by simp
        also have "\<dots> = (ok', ?s1\<lparr>cart_table := (cart_table ?s1)(?c \<mapsto> ?cart)\<rparr>)"
          unfolding undo using None cne by (intro persist_Inr_ok) simp_all
        finally have "snd (removeModifierFromCart ?s1 req)
                        = ?s1\<lparr>cart_table := (cart_table ?s1)(?c \<mapsto> ?cart)\<rparr>"
          by simp
        also have "\<dots> = s"
          using store(3) by (simp add: map_upd_triv)
        finally show ?thesis
          by (simp add: s1)
      qed
    qed
  qed
qed

text \<open>
  Witness for C8: the last line of the cart is a two-piece sandwich that carries
  ``Extra Pickles'' on its second piece. The request names ``Extra Pickles'' for the
  first piece: the applied modifier has the requested name but belongs to the other
  piece, so no removal can match it. The option of the first piece is added after it
  and removed again, and the store is as before.
\<close>

theorem add_then_remove_modifiers_restores_witness:
  "targetCartItemIndex (getSessionCart (store_with [fries_line 1, pickle_line]) ''c1'')
       ''Pickle Sandwich (2pc)'' = Some 1
   \<and> lineTotalInvariant pickle_line
   \<and> map optionName (modifiers pickle_line) = firstSandwichMods pickle_request
   \<and> statusCode (fst (addModifierToCart pickle_env (store_with [fries_line 1, pickle_line])
         pickle_request)) = 200
   \<and> map optionId (modifiers (getSessionCart
         (snd (addModifierToCart pickle_env (store_with [fries_line 1, pickle_line])
            pickle_request)) ''c1'' ! 1)) = [''P2'', ''P1'']
   \<and> snd (removeModifierFromCart
         (snd (addModifierToCart pickle_env (store_with [fries_line 1, pickle_line])
            pickle_request))
         pickle_request)
       = store_with [fries_line 1, pickle_line]"
proof -
  let ?s = "store_with [fries_line 1, pickle_line]"
  have g: "getSessionCart ?s (the (call_id pickle_request)) = [fries_line 1, pickle_line]"
    by (simp add: getSessionCart_def ex_defs pickle_request_def)
  have h: "\<forall>i. targetCartItemIndex (getSessionCart ?s (the (call_id pickle_request)))
              (the (argItemName pickle_request)) = Some i
        \<longrightarrow> lineTotalInvariant (getSessionCart ?s (the (call_id pickle_request)) ! i)
          \<and> (\<forall>m \<in> set (modifiers (getSessionCart ?s (the (call_id pickle_request)) ! i)).
                (\<forall>x \<in> set (firstSandwichMods pickle_request).
                    \<not> removalMatch (str_includes (the (argItemName pickle_request)) ''(2pc)'')
                        ''Choose Your First Sandwich Mods'' x m)
                \<and> (str_includes (the (argItemName pickle_request)) ''(2pc)'' \<longrightarrow>
                     (\<forall>x \<in> set (secondSandwichMods pickle_request).
                         \<not> removalMatch (str_includes (the (argItemName pickle_request)) ''(2pc)'')
                             ''Choose Your Second Sandwich Mods'' x m)))"
    unfolding g
    by (simp add: targetCartItemIndex_def hasName_def pickle_request_def ex_defs fries_line_def
        pickle_line_def buildCartItem_def lineTotalInvariant_def removalMatch_def truthy_def
        Let_def pickle_sandwich_def side_dish_def)
  have ok: "statusCode (fst (addModifierToCart pickle_env ?s pickle_request)) = 200"
    and added: "map optionId (modifiers (getSessionCart
         (snd (addModifierToCart pickle_env ?s pickle_request)) ''c1'' ! 1)) = [''P2'', ''P1'']"
    by (simp_all add: handler_defs resolver_defs ex_defs pickle_request_def pickle_line_def
        pickle_env_def fries_line_def buildCartItem_def pickle_sandwich_def side_dish_def)
  have tgt: "targetCartItemIndex (getSessionCart ?s ''c1'') ''Pickle Sandwich (2pc)'' = Some 1"
    and line: "lineTotalInvariant pickle_line"
      "map optionName (modifiers pickle_line) = firstSandwichMods pickle_request"
    by (simp_all add: getSessionCart_def targetCartItemIndex_def hasName_def ex_defs
        fries_line_def pickle_line_def pickle_request_def buildCartItem_def pickle_sandwich_def
        side_dish_def lineTotalInvariant_def truthy_def Let_def)
  show ?thesis
    by (intro conjI)
      (fact tgt, fact line(1), fact line(2), fact ok, fact added,
       fact add_then_remove_modifiers_restores [OF h, of pickle_env])
qed

subsection \<open>C9: the line that modifiers target\<close>




subsection \<open>C10: removeFromCart with quantity 0\<close>

text \<open>
  C10. For a cart with a line matching the item name, \<^verbatim>\<open>removeFromCart\<close> with
  \<^verbatim>\<open>quantityToRemove\<close> equal to 0 deletes the whole first matching line, exactly as a
  request without \<^verbatim>\<open>quantityToRemove\<close> does (the write of the cart succeeding).
\<close>

theorem removeFromCart_zero_removes_line:
  assumes "truthy (call_id req)" and "truthy (argItemName req)"
    and "put_error s = None"
    and "findIndex (nameMatches (the (argItemName req))) (getSessionCart s (the (call_id req)))
           = Some i"
    and "quantityToRemove req = Some 0"
  shows "statusCode (fst (removeFromCart s req)) = 200
     \<and> getSessionCart (snd (removeFromCart s req)) (the (call_id req))
         = splice1 i (getSessionCart s (the (call_id req)))
     \<and> snd (removeFromCart s req) = snd (removeFromCart s (req\<lparr>quantityToRemove := None\<rparr>))"
proof -
  have ne: "getSessionCart s (the (call_id req)) \<noteq> []"
    using assms(4) by auto
  then have g: "\<not> get_fails s" "the (call_id req) \<noteq> []"
    by (auto simp: getSessionCart_def split: if_splits)
  show ?thesis
    using assms ne g
    by (simp add: removeFromCart_def removeFromCart_inMemory_def Let_def persist_def
        saveSessionCart_def response_defs getSessionCart_def)
qed

text \<open>
  Witness for C10: removing quantity 0 of fries from a cart of sandwiches and three fries
  leaves the sandwiches only.
\<close>

theorem removeFromCart_zero_removes_line_witness:
  "truthy (call_id (ex_request\<lparr>argItemName := Some ''fries'', quantityToRemove := Some 0\<rparr>))
   \<and> findIndex (nameMatches ''fries'') (getSessionCart (store_with [cheese_line, fries_line 3]) ''c1'')
       = Some 1
   \<and> statusCode (fst (removeFromCart (store_with [cheese_line, fries_line 3])
         (ex_request\<lparr>argItemName := Some ''fries'', quantityToRemove := Some 0\<rparr>))) = 200
   \<and> getSessionCart (snd (removeFromCart (store_with [cheese_line, fries_line 3])
         (ex_request\<lparr>argItemName := Some ''fries'', quantityToRemove := Some 0\<rparr>))) ''c1''
       = [cheese_line]"
proof -
  let ?req = "ex_request\<lparr>argItemName := Some ''fries'', quantityToRemove := Some 0\<rparr>"
  let ?s = "store_with [cheese_line, fries_line 3]"
  have c: "the (call_id ?req) = ''c1''" "the (argItemName ?req) = ''fries''"
    by (simp_all add: ex_defs)
  have g: "getSessionCart ?s ''c1'' = [cheese_line, fries_line 3]"
    by (simp add: getSessionCart_def ex_defs)
  have 1: "truthy (call_id ?req)" and 2: "truthy (argItemName ?req)"
    by (simp_all add: ex_defs truthy_def)
  have 3: "put_error ?s = None"
    by (simp add: ex_defs)
  have 4: "findIndex (nameMatches (the (argItemName ?req))) (getSessionCart ?s (the (call_id ?req)))
             = Some 1"
    unfolding c g
    by (simp add: nameMatches_def cheese_line_def fries_line_def buildCartItem_def Let_def
        toLowerCase_def toLowerCase_char_def truthy_def)
  have 5: "quantityToRemove ?req = Some 0"
    by simp
  note r = removeFromCart_zero_removes_line [OF 1 2 3 4 5]
  from r [THEN conjunct1] r [THEN conjunct2, THEN conjunct1] 1 4
  show ?thesis
    unfolding c g by (simp add: splice1_def)
qed

end
